theory Spec2Isabelle
  imports Main "HOL-Library.Word"
begin

section \<open>Go library functions used by \<open>cmd/sorg-build/main.go\<close>\<close>

text \<open>
  A Go \<open>string\<close> is a sequence of bytes; it is modelled as \<^typ>\<open>string\<close>, a list of
  8-bit characters. Errors are values: the package-level \<open>errBadFrontmatter\<close>, the
  errors built by \<open>fmt.Errorf\<close> (carrying their message), the errors returned by the
  collaborators outside this file (file system, YAML, template engine, database), and
  the run-time panic of an index out of range.
\<close>

datatype error =
    errBadFrontmatter
  | Errorf string
  | External string
  | PanicIndexOutOfRange

text \<open>\<open>err.Error()\<close>, as \<open>%v\<close> prints an error.\<close>

fun errorString :: "error \<Rightarrow> string" where
  "errorString errBadFrontmatter = ''Unable to split YAML frontmatter''"
| "errorString (Errorf msg) = msg"
| "errorString (External msg) = msg"
| "errorString PanicIndexOutOfRange = ''runtime error: index out of range''"

subsection \<open>\<open>strings.TrimSpace\<close>\<close>

text \<open>
  \<open>strings.TrimSpace\<close> removes all leading and trailing white space, as defined by
  Unicode (\<open>unicode.IsSpace\<close>). These are the UTF-8 encodings of the white-space code
  points: U+0009..U+000D, U+0020, U+0085, U+00A0, U+1680, U+2000..U+200A, U+2028,
  U+2029, U+202F, U+205F and U+3000. A byte that does not start a valid encoding
  decodes to U+FFFD, which is not white space.
\<close>

definition spaceRunes :: "string list" where
  "spaceRunes =
     [[CHR 0x09], [CHR 0x0A], [CHR 0x0B], [CHR 0x0C], [CHR 0x0D], [CHR 0x20],
      [CHR 0xC2, CHR 0x85], [CHR 0xC2, CHR 0xA0],
      [CHR 0xE1, CHR 0x9A, CHR 0x80],
      [CHR 0xE2, CHR 0x80, CHR 0x80], [CHR 0xE2, CHR 0x80, CHR 0x81],
      [CHR 0xE2, CHR 0x80, CHR 0x82], [CHR 0xE2, CHR 0x80, CHR 0x83],
      [CHR 0xE2, CHR 0x80, CHR 0x84], [CHR 0xE2, CHR 0x80, CHR 0x85],
      [CHR 0xE2, CHR 0x80, CHR 0x86], [CHR 0xE2, CHR 0x80, CHR 0x87],
      [CHR 0xE2, CHR 0x80, CHR 0x88], [CHR 0xE2, CHR 0x80, CHR 0x89],
      [CHR 0xE2, CHR 0x80, CHR 0x8A],
      [CHR 0xE2, CHR 0x80, CHR 0xA8], [CHR 0xE2, CHR 0x80, CHR 0xA9],
      [CHR 0xE2, CHR 0x80, CHR 0xAF],
      [CHR 0xE2, CHR 0x81, CHR 0x9F],
      [CHR 0xE3, CHR 0x80, CHR 0x80]]"

text \<open>The width in bytes of the white-space rune a string starts (ends) with; 0 if none.\<close>

definition leadingSpace :: "string \<Rightarrow> nat" where
  "leadingSpace s =
     (case find (\<lambda>r. take (length r) s = r) spaceRunes of
        None \<Rightarrow> 0
      | Some r \<Rightarrow> length r)"

definition trailingSpace :: "string \<Rightarrow> nat" where
  "trailingSpace s =
     (case find (\<lambda>r. length r \<le> length s \<and> drop (length s - length r) s = r) spaceRunes of
        None \<Rightarrow> 0
      | Some r \<Rightarrow> length r)"

lemma leadingSpace_le: "leadingSpace s \<le> length s"
proof (cases "find (\<lambda>r. take (length r) s = r) spaceRunes")
  case None
  then show ?thesis by (simp add: leadingSpace_def)
next
  case (Some r)
  then have "take (length r) s = r" by (auto simp: find_Some_iff)
  then have "length r \<le> length s"
    by (metis length_take min.cobounded1)
  with Some show ?thesis by (simp add: leadingSpace_def)
qed

lemma trailingSpace_le: "trailingSpace s \<le> length s"
  by (auto simp: trailingSpace_def find_Some_iff split: option.splits)

function TrimLeft :: "string \<Rightarrow> string" where
  "TrimLeft s = (if leadingSpace s = 0 then s else TrimLeft (drop (leadingSpace s) s))"
  by pat_completeness auto
termination
proof (relation "measure length")
  show "wf (measure length)" by simp
next
  fix s :: string
  assume "leadingSpace s \<noteq> 0"
  moreover have "leadingSpace s \<le> length s" by (rule leadingSpace_le)
  ultimately show "(drop (leadingSpace s) s, s) \<in> measure length" by simp
qed

function TrimRight :: "string \<Rightarrow> string" where
  "TrimRight s =
     (if trailingSpace s = 0 then s else TrimRight (take (length s - trailingSpace s) s))"
  by pat_completeness auto
termination
proof (relation "measure length")
  show "wf (measure length)" by simp
next
  fix s :: string
  assume "trailingSpace s \<noteq> 0"
  moreover have "trailingSpace s \<le> length s" by (rule trailingSpace_le)
  ultimately show "(take (length s - trailingSpace s) s, s) \<in> measure length" by simp
qed

declare TrimLeft.simps [simp del] TrimRight.simps [simp del]

definition TrimSpace :: "string \<Rightarrow> string" where
  "TrimSpace s = TrimRight (TrimLeft s)"

subsection \<open>\<open>regexp.MustCompile("(?m)^---").Split\<close>\<close>

text \<open>
  The leftmost, non-overlapping matches of the pattern \<open>(?m)^---\<close> in a text, as pairs
  of byte offsets (start, end). With the flag \<open>m\<close>, \<open>^\<close> matches at the start of the
  text and after every line feed. The scan carries the offset of the rest of the text
  and whether that offset is at the start of a line; after a match it resumes behind it.
\<close>

fun findAllFrom :: "nat \<Rightarrow> bool \<Rightarrow> string \<Rightarrow> (nat \<times> nat) list" where
  "findAllFrom i bol s =
     (if s = [] then []
      else if bol \<and> take 3 s = ''---'' then (i, i + 3) # findAllFrom (i + 3) False (drop 3 s)
      else findAllFrom (i + 1) (hd s = CHR 0x0A) (tl s))"

declare findAllFrom.simps [simp del]

text \<open>\<open>re.FindAllStringIndex(s, n)\<close>: at most \<open>n\<close> matches, all of them when \<open>n < 0\<close>.\<close>

definition FindAllStringIndex :: "string \<Rightarrow> int \<Rightarrow> (nat \<times> nat) list" where
  "FindAllStringIndex s n =
     take (nat (if n < 0 then int (length s) + 1 else n)) (findAllFrom 0 True s)"

text \<open>
  The loop of \<open>Regexp.Split\<close> over the matches: \<open>strs\<close> are the pieces so far, \<open>beg\<close> the
  end of the last match, \<open>end\<close> the start of the last match. The slices it takes are
  always in range.
\<close>

fun splitLoop ::
  "int \<Rightarrow> string \<Rightarrow> (nat \<times> nat) list \<Rightarrow> string list \<Rightarrow> nat \<Rightarrow> nat \<Rightarrow> string list \<times> nat \<times> nat"
where
  "splitLoop n s [] strs beg end = (strs, beg, end)"
| "splitLoop n s ((m0, m1) # ms) strs beg end =
     (if 0 < n \<and> int (length strs) = n - 1 then (strs, beg, end)
      else splitLoop n s ms
             (if m1 \<noteq> 0 then strs @ [take (m0 - beg) (drop beg s)] else strs) m1 m0)"

definition Split :: "string \<Rightarrow> int \<Rightarrow> string list" where
  "Split s n =
     (if n = 0 then []
      else if s = [] then ['''']
      else (case splitLoop n s (FindAllStringIndex s n) [] 0 0 of
              (strs, beg, end) \<Rightarrow> if end \<noteq> length s then strs @ [drop beg s] else strs))"

subsection \<open>Other library functions\<close>

text \<open>\<open>strings.Replace(s, old, new, -1)\<close> for a non-empty \<open>old\<close>, its only use here.\<close>

fun Replace :: "string \<Rightarrow> string \<Rightarrow> string \<Rightarrow> string" where
  "Replace s old new =
     (if s = [] \<or> old = [] then s
      else if take (length old) s = old then new @ Replace (drop (length old) s) old new
      else hd s # Replace (tl s) old new)"

declare Replace.simps [simp del]

definition HasSuffix :: "string \<Rightarrow> string \<Rightarrow> bool" where
  "HasSuffix s suffix =
     (length suffix \<le> length s \<and> drop (length s - length suffix) s = suffix)"

text \<open>
  A Go slice is \<open>nil\<close> or holds a sequence of elements; \<open>len\<close> of both \<open>nil\<close> and the
  empty slice is 0, and \<open>append\<close> to either gives a non-nil slice.
\<close>

datatype 'a slice = NilSlice | Slice "'a list"

fun len :: "'a slice \<Rightarrow> nat" where
  "len NilSlice = 0"
| "len (Slice xs) = length xs"

fun append :: "'a slice \<Rightarrow> 'a \<Rightarrow> 'a slice" where
  "append NilSlice x = Slice [x]"
| "append (Slice xs) x = Slice (xs @ [x])"

section \<open>Data model\<close>

text \<open>
  A \<open>time.Time\<close> is an instant and a \<open>float64\<close> a 64-bit pattern; the program passes
  both on without inspecting them. A \<open>time.Duration\<close> is an \<open>int64\<close>. A pointer that
  may be \<open>nil\<close> is an option.
\<close>

datatype Time = Time int

datatype float64 = Float64 "64 word"

type_synonym Duration = "64 word"

record Article =
  Attributions :: string
  Content :: string
  HNLink :: string
  Hook :: string
  Image :: string
  PublishedAt :: "Time option"
  Title :: string
  TOC :: string

record Conf =
  BlackSwanDatabaseURL :: string
  GoogleAnalyticsID :: string
  Verbose :: bool

record Fragment =
  Content :: string
  Image :: string
  PublishedAt :: "Time option"
  Title :: string

record Run =
  Distance :: float64
  ElevationGain :: float64
  LocationCity :: string
  MovingTime :: Duration
  OccurredAt :: "Time option"

text \<open>The values stored under \<open>interface{}\<close> in the locals of a template.\<close>

datatype val =
    VString string
  | VArticle Article
  | VFragment Fragment
  | VRuns "Run slice"
  | VTimes "Time slice"
  | VFloats "float64 slice"
  | VStrings "string slice"

type_synonym locals = "string \<rightharpoonup> val"

section \<open>The world outside the program\<close>

text \<open>
  What the build leaves behind: regular files (by path, with their content), symbolic
  links (by path, with their target), the calls made to the database and the templates
  executed (the target path and the locals supplied), both in order.
\<close>

text \<open>
  The calls to the database: \<open>sql.Open\<close> with the driver and the connection string,
  and the three queries of \<open>compileRuns\<close> (the 30 most recent runs, the distance of
  each of the last 180 days, the distance of each year), whose SQL text is fixed.
\<close>

datatype dbcall = SqlOpen string string | QueryRecentRuns | QueryLastYear | QueryByYear

record world =
  files :: "string \<rightharpoonup> string"
  symlinks :: "string \<rightharpoonup> string"
  dbLog :: "dbcall list"
  executed :: "(string \<times> locals) list"

text \<open>
  A result set of the database: for each row in order what \<open>rows.Scan\<close> gives (the
  scanned columns, or an error), and what \<open>rows.Err()\<close> reports after the last row.
\<close>

record 'r Rows =
  scans :: "(error + 'r) list"
  rowsErr :: "error option"

type_synonym runRow = "float64 \<times> float64 \<times> string option \<times> Duration \<times> Time option"

text \<open>
  A loaded template is what its execution writes for given locals, with the error that
  may end it.
\<close>

type_synonym template = "locals \<Rightarrow> string \<times> error option"

text \<open>
  Everything this file takes from outside: the constants and \<open>CreateTargetDirs\<close> of
  package \<open>sorg\<close>, the process environment, the source tree (read only), the external
  libraries (YAML, Markdown, the template engine, the CSS preprocessor, the database
  driver) and the failures of the operating system.
\<close>

record env =
  ArticlesDir :: string
  FragmentsDir :: string
  ImagesDir :: string
  LayoutsDir :: string
  StylesheetsDir :: string
  ViewsDir :: string
  TargetDir :: string
  TargetArticlesDir :: string
  TargetAssetsDir :: string
  TargetFragmentsDir :: string
  TargetVersionedAssetsDir :: string
  Release :: string
  CreateTargetDirs :: "world \<Rightarrow> error option \<times> world"
  envDecode :: "error + Conf"
  ReadDir :: "string \<Rightarrow> error + string list"
  srcFile :: "string \<Rightarrow> error + string"
  copyFault :: "string \<Rightarrow> (nat \<times> error) option"
  yamlArticle :: "string \<Rightarrow> error + Article"
  yamlFragment :: "string \<Rightarrow> error + Fragment"
  Markdown :: "string \<Rightarrow> string"
  aceLoad :: "string \<Rightarrow> string \<Rightarrow> error + template"
  gcssCompile :: "string \<Rightarrow> error + string"
  createErr :: "string \<Rightarrow> error option"
  Abs :: "string \<Rightarrow> error + string"
  removeAllErr :: "string \<Rightarrow> error option"
  symlinkErr :: "string \<Rightarrow> string \<Rightarrow> error option"
  sqlOpen :: "string \<Rightarrow> string \<Rightarrow> error option"
  queryRecentRuns :: "error + runRow Rows"
  queryLastYear :: "error + (Time \<times> float64) Rows"
  queryByYear :: "error + (string \<times> float64) Rows"

text \<open>\<open>os.Create\<close> creates or truncates the file; writing appends to it.\<close>

definition Create :: "env \<Rightarrow> string \<Rightarrow> world \<Rightarrow> error + world" where
  "Create env path w =
     (case createErr env path of
        Some e \<Rightarrow> Inl e
      | None \<Rightarrow> Inr (w\<lparr>files := (files w)(path \<mapsto> '''')\<rparr>))"

definition WriteString :: "string \<Rightarrow> string \<Rightarrow> world \<Rightarrow> world" where
  "WriteString path data w =
     w\<lparr>files := (files w)(path \<mapsto> (case files w path of None \<Rightarrow> data | Some c \<Rightarrow> c @ data))\<rparr>"

section \<open>The program\<close>

text \<open>
  The package variable \<open>conf\<close> is set once by \<open>main\<close> and read afterwards; it is passed
  as an argument. Log lines (\<open>log.Debugf\<close>) are not part of the modelled state.
\<close>

definition stylesheets :: "string list" where
  "stylesheets =
     [''_reset.sass'', ''main.sass'', ''about.sass'', ''fragments.sass'', ''index.sass'',
      ''photos.sass'', ''quotes.sass'', ''reading.sass'', ''runs.sass'', ''signature.sass'',
      ''solarized-light.css'', ''tenets.sass'', ''twitter.sass'']"

text \<open>
  \<open>splitFrontmatter\<close> returns the metadata block and the body of a document, or
  \<open>errBadFrontmatter\<close>. \<open>Split\<close> with a limit of 3 never returns an empty list, so the
  index expression \<open>parts[0]\<close> of the last line is always in range; the model has the
  panic it would give otherwise.
\<close>

definition splitFrontmatter :: "string \<Rightarrow> error + (string \<times> string)" where
  "splitFrontmatter content =
     (let parts = Split content 3 in
      if 1 < length parts \<and> parts ! 0 \<noteq> '''' then Inl errBadFrontmatter
      else if length parts = 2 then Inr ('''', TrimSpace (parts ! 1))
      else if length parts = 3 then Inr (TrimSpace (parts ! 1), TrimSpace (parts ! 2))
      else if parts = [] then Inl PanicIndexOutOfRange
      else Inr ('''', TrimSpace (parts ! 0)))"

definition getLocals :: "env \<Rightarrow> Conf \<Rightarrow> string \<Rightarrow> locals \<Rightarrow> locals" where
  "getLocals env conf title locals =
     [''BodyClass'' \<mapsto> VString '''',
      ''GoogleAnalyticsID'' \<mapsto> VString (GoogleAnalyticsID conf),
      ''Release'' \<mapsto> VString (Release env),
      ''Title'' \<mapsto> VString title,
      ''ViewportWidth'' \<mapsto> VString ''device-width''] ++ locals"

text \<open>
  \<open>renderView\<close>: the deferred \<open>Flush\<close> writes what the template produced, also when
  its execution ends with an error.
\<close>

definition renderView ::
  "env \<Rightarrow> string \<Rightarrow> string \<Rightarrow> string \<Rightarrow> locals \<Rightarrow> world \<Rightarrow> error option \<times> world"
where
  "renderView env layout view target locals w =
     (case aceLoad env layout view of
        Inl e \<Rightarrow> (Some e, w)
      | Inr template \<Rightarrow>
          (case Create env target w of
             Inl e \<Rightarrow> (Some e, w)
           | Inr w1 \<Rightarrow>
               (case template locals of
                  (out, err) \<Rightarrow>
                    (err, WriteString target out
                            (w1\<lparr>executed := executed w1 @ [(target, locals)]\<rparr>)))))"

text \<open>The body of the loop of \<open>compileArticles\<close>, for one directory entry.\<close>

definition compileArticle :: "env \<Rightarrow> Conf \<Rightarrow> string \<Rightarrow> world \<Rightarrow> error option \<times> world" where
  "compileArticle env conf name w =
     (let inPath = ArticlesDir env @ name;
          outName = Replace name ''.md'' '''' in
      case srcFile env inPath of
        Inl e \<Rightarrow> (Some e, w)
      | Inr raw \<Rightarrow>
          (case splitFrontmatter raw of
             Inl e \<Rightarrow> (Some e, w)
           | Inr (frontmatter, content) \<Rightarrow>
               (case yamlArticle env frontmatter of
                  Inl e \<Rightarrow> (Some e, w)
                | Inr article \<Rightarrow>
                    if Article.Title article = '''' then
                      (Some (Errorf (''No title for article: '' @ inPath)), w)
                    else if Article.PublishedAt article = None then
                      (Some (Errorf (''No publish date for article: '' @ inPath)), w)
                    else
                      (let article1 = article\<lparr>Article.Content := Markdown env content,
                                               TOC := ''''\<rparr>;
                           locals = getLocals env conf (Article.Title article1)
                                      [''Article'' \<mapsto> VArticle article1]
                       in renderView env (LayoutsDir env @ ''main'')
                            (ViewsDir env @ ''/articles/show'')
                            (TargetArticlesDir env @ outName) locals w))))"

fun compileArticlesLoop ::
  "env \<Rightarrow> Conf \<Rightarrow> string list \<Rightarrow> world \<Rightarrow> error option \<times> world"
where
  "compileArticlesLoop env conf [] w = (None, w)"
| "compileArticlesLoop env conf (name # rest) w =
     (case compileArticle env conf name w of
        (Some e, w1) \<Rightarrow> (Some e, w1)
      | (None, w1) \<Rightarrow> compileArticlesLoop env conf rest w1)"

definition compileArticles :: "env \<Rightarrow> Conf \<Rightarrow> world \<Rightarrow> error option \<times> world" where
  "compileArticles env conf w =
     (case ReadDir env (ArticlesDir env) of
        Inl e \<Rightarrow> (Some e, w)
      | Inr articleInfos \<Rightarrow> compileArticlesLoop env conf articleInfos w)"

text \<open>The body of the loop of \<open>compileFragments\<close>, for one directory entry.\<close>

definition compileFragment :: "env \<Rightarrow> Conf \<Rightarrow> string \<Rightarrow> world \<Rightarrow> error option \<times> world" where
  "compileFragment env conf name w =
     (let inPath = FragmentsDir env @ name;
          outName = Replace name ''.md'' '''' in
      case srcFile env inPath of
        Inl e \<Rightarrow> (Some e, w)
      | Inr raw \<Rightarrow>
          (case splitFrontmatter raw of
             Inl e \<Rightarrow> (Some e, w)
           | Inr (frontmatter, content) \<Rightarrow>
               (case yamlFragment env frontmatter of
                  Inl e \<Rightarrow> (Some e, w)
                | Inr fragment \<Rightarrow>
                    if Fragment.Title fragment = '''' then
                      (Some (Errorf (''No title for fragment: '' @ inPath)), w)
                    else if Fragment.PublishedAt fragment = None then
                      (Some (Errorf (''No publish date for fragment: '' @ inPath)), w)
                    else
                      (let fragment1 = fragment\<lparr>Fragment.Content := Markdown env content\<rparr>;
                           locals = getLocals env conf (Fragment.Title fragment1)
                                      [''Fragment'' \<mapsto> VFragment fragment1]
                       in renderView env (LayoutsDir env @ ''main'')
                            (ViewsDir env @ ''/fragments/show'')
                            (TargetFragmentsDir env @ outName) locals w))))"

fun compileFragmentsLoop ::
  "env \<Rightarrow> Conf \<Rightarrow> string list \<Rightarrow> world \<Rightarrow> error option \<times> world"
where
  "compileFragmentsLoop env conf [] w = (None, w)"
| "compileFragmentsLoop env conf (name # rest) w =
     (case compileFragment env conf name w of
        (Some e, w1) \<Rightarrow> (Some e, w1)
      | (None, w1) \<Rightarrow> compileFragmentsLoop env conf rest w1)"

definition compileFragments :: "env \<Rightarrow> Conf \<Rightarrow> world \<Rightarrow> error option \<times> world" where
  "compileFragments env conf w =
     (case ReadDir env (FragmentsDir env) of
        Inl e \<Rightarrow> (Some e, w)
      | Inr fragmentInfos \<Rightarrow> compileFragmentsLoop env conf fragmentInfos w)"

text \<open>
  A stage of the build returns an error or \<open>nil\<close>; \<open>compileRuns\<close> may also end the
  process itself with \<open>log.Fatal\<close>.
\<close>

datatype outcome = Return "error option" | LogFatal error

definition logDB :: "dbcall \<Rightarrow> world \<Rightarrow> world" where
  "logDB c w = w\<lparr>dbLog := dbLog w @ [c]\<rparr>"

text \<open>The three loops over \<open>rows.Next()\<close> of \<open>compileRuns\<close>.\<close>

fun scanRuns :: "(error + runRow) list \<Rightarrow> Run slice \<Rightarrow> error + Run slice" where
  "scanRuns [] runs = Inr runs"
| "scanRuns (Inl e # rest) runs = Inl e"
| "scanRuns (Inr (distance, elevationGain, locationCity, movingTime, occurredAt) # rest) runs =
     scanRuns rest
       (append runs
          \<lparr>Distance = distance, ElevationGain = elevationGain,
           LocationCity = (case locationCity of None \<Rightarrow> '''' | Some city \<Rightarrow> city),
           MovingTime = movingTime, OccurredAt = occurredAt\<rparr>)"

fun scanDays ::
  "(error + Time \<times> float64) list \<Rightarrow> Time slice \<Rightarrow> float64 slice \<Rightarrow>
     error + (Time slice \<times> float64 slice)"
where
  "scanDays [] xs ys = Inr (xs, ys)"
| "scanDays (Inl e # rest) xs ys = Inl e"
| "scanDays (Inr (day, distance) # rest) xs ys =
     scanDays rest (append xs day) (append ys distance)"

fun scanYears ::
  "(error + string \<times> float64) list \<Rightarrow> string slice \<Rightarrow> float64 slice \<Rightarrow>
     error + (string slice \<times> float64 slice)"
where
  "scanYears [] xs ys = Inr (xs, ys)"
| "scanYears (Inl e # rest) xs ys = Inl e"
| "scanYears (Inr (year, distance) # rest) xs ys =
     scanYears rest (append xs year) (append ys distance)"

text \<open>The end of \<open>compileRuns\<close>: the locals of the page and its rendering.\<close>

definition renderRuns ::
  "env \<Rightarrow> Conf \<Rightarrow> Run slice \<Rightarrow> Time slice \<Rightarrow> float64 slice \<Rightarrow> string slice \<Rightarrow>
     float64 slice \<Rightarrow> world \<Rightarrow> outcome \<times> world"
where
  "renderRuns env conf runs lastYearXDays lastYearYDistances byYearXYears byYearYDistances w =
     (let locals = getLocals env conf ''Runs''
            [''Runs'' \<mapsto> VRuns runs,
             ''LastYearXDays'' \<mapsto> VTimes lastYearXDays,
             ''LastYearYDistances'' \<mapsto> VFloats lastYearYDistances,
             ''ByYearXYears'' \<mapsto> VStrings byYearXYears,
             ''ByYearYDistances'' \<mapsto> VFloats byYearYDistances]
      in case renderView env (LayoutsDir env @ ''main'') (ViewsDir env @ ''/runs/index'')
                (TargetDir env @ ''runs'') locals w of
           (err, w1) \<Rightarrow> (Return err, w1))"

definition compileRuns :: "env \<Rightarrow> Conf \<Rightarrow> world \<Rightarrow> outcome \<times> world" where
  "compileRuns env conf w =
     (let runs = NilSlice;
          lastYearXDays = Slice [];
          lastYearYDistances = Slice [];
          byYearXYears = Slice [];
          byYearYDistances = Slice []
      in
      if BlackSwanDatabaseURL conf \<noteq> '''' then
        (let w1 = logDB (SqlOpen ''postgres'' (BlackSwanDatabaseURL conf)) w in
         case sqlOpen env ''postgres'' (BlackSwanDatabaseURL conf) of
           Some e \<Rightarrow> (LogFatal e, w1)
         | None \<Rightarrow>
         (let w2 = logDB QueryRecentRuns w1 in
          case queryRecentRuns env of
            Inl e \<Rightarrow> (Return (Some e), w2)
          | Inr rows1 \<Rightarrow>
          (case scanRuns (scans rows1) runs of
            Inl e \<Rightarrow> (Return (Some e), w2)
          | Inr runs1 \<Rightarrow>
          (case rowsErr rows1 of
            Some e \<Rightarrow> (Return (Some e), w2)
          | None \<Rightarrow>
          (let w3 = logDB QueryLastYear w2 in
           case queryLastYear env of
             Inl e \<Rightarrow> (Return (Some e), w3)
           | Inr rows2 \<Rightarrow>
           (case scanDays (scans rows2) lastYearXDays lastYearYDistances of
             Inl e \<Rightarrow> (Return (Some e), w3)
           | Inr (lastYearXDays1, lastYearYDistances1) \<Rightarrow>
           (case rowsErr rows2 of
             Some e \<Rightarrow> (Return (Some e), w3)
           | None \<Rightarrow>
           (let w4 = logDB QueryByYear w3 in
            case queryByYear env of
              Inl e \<Rightarrow> (Return (Some e), w4)
            | Inr rows3 \<Rightarrow>
            (case scanYears (scans rows3) byYearXYears byYearYDistances of
              Inl e \<Rightarrow> (Return (Some e), w4)
            | Inr (byYearXYears1, byYearYDistances1) \<Rightarrow>
            (case rowsErr rows3 of
              Some e \<Rightarrow> (Return (Some e), w4)
            | None \<Rightarrow>
                renderRuns env conf runs1 lastYearXDays1 lastYearYDistances1
                  byYearXYears1 byYearYDistances1 w4))))))))))
      else
        renderRuns env conf runs lastYearXDays lastYearYDistances
          byYearXYears byYearYDistances w)"

text \<open>
  \<open>io.Copy\<close> writes the whole source file, or a prefix of it when reading fails.
\<close>

definition Copy :: "env \<Rightarrow> string \<Rightarrow> string \<Rightarrow> string \<times> error option" where
  "Copy env inPath inFile =
     (case copyFault env inPath of
        None \<Rightarrow> (inFile, None)
      | Some (n, e) \<Rightarrow> (take n inFile, Some e))"

text \<open>
  The loop of \<open>compileStylesheets\<close> over the style sheets left to process; \<open>outFile\<close>
  is the path of the bundle. The results of \<open>WriteString\<close> are not checked by the code.
\<close>

fun compileStylesheetsLoop ::
  "env \<Rightarrow> string \<Rightarrow> string list \<Rightarrow> world \<Rightarrow> error option \<times> world"
where
  "compileStylesheetsLoop env outFile [] w = (None, w)"
| "compileStylesheetsLoop env outFile (stylesheet # rest) w =
     (let inPath = StylesheetsDir env @ stylesheet in
      case srcFile env inPath of
        Inl e \<Rightarrow> (Some e, w)
      | Inr inFile \<Rightarrow>
          (let w1 = WriteString outFile (''/* '' @ stylesheet @ '' */\<newline>\<newline>'') w in
           if HasSuffix stylesheet ''.sass'' then
             (case gcssCompile env inFile of
                Inl e \<Rightarrow>
                  (Some (Errorf (''Error compiling '' @ inPath @ '': '' @ errorString e)), w1)
              | Inr css \<Rightarrow>
                  compileStylesheetsLoop env outFile rest
                    (WriteString outFile ''\<newline>\<newline>'' (WriteString outFile css w1)))
           else
             (case Copy env inPath inFile of
                (written, Some e) \<Rightarrow> (Some e, WriteString outFile written w1)
              | (written, None) \<Rightarrow>
                  compileStylesheetsLoop env outFile rest
                    (WriteString outFile ''\<newline>\<newline>'' (WriteString outFile written w1)))))"

definition compileStylesheets :: "env \<Rightarrow> world \<Rightarrow> error option \<times> world" where
  "compileStylesheets env w =
     (let outFile = TargetVersionedAssetsDir env @ ''app.css'' in
      case Create env outFile w of
        Inl e \<Rightarrow> (Some e, w)
      | Inr w1 \<Rightarrow> compileStylesheetsLoop env outFile stylesheets w1)"

text \<open>\<open>os.RemoveAll\<close> removes a path and everything below it.\<close>

definition below :: "string \<Rightarrow> string \<Rightarrow> bool" where
  "below path p = (p = path \<or> take (length path + 1) p = path @ ''/'')"

definition RemoveAll :: "env \<Rightarrow> string \<Rightarrow> world \<Rightarrow> error + world" where
  "RemoveAll env path w =
     (case removeAllErr env path of
        Some e \<Rightarrow> Inl e
      | None \<Rightarrow>
          Inr (w\<lparr>files := (\<lambda>p. if below path p then None else files w p),
                 symlinks := (\<lambda>p. if below path p then None else symlinks w p)\<rparr>))"

definition Symlink :: "env \<Rightarrow> string \<Rightarrow> string \<Rightarrow> world \<Rightarrow> error + world" where
  "Symlink env source dest w =
     (case symlinkErr env source dest of
        Some e \<Rightarrow> Inl e
      | None \<Rightarrow>
          if files w dest \<noteq> None \<or> symlinks w dest \<noteq> None
          then Inl (External ''file exists'')
          else Inr (w\<lparr>symlinks := (symlinks w)(dest \<mapsto> source)\<rparr>))"

fun linkImageAssetsLoop :: "env \<Rightarrow> string list \<Rightarrow> world \<Rightarrow> error option \<times> world" where
  "linkImageAssetsLoop env [] w = (None, w)"
| "linkImageAssetsLoop env (asset # rest) w =
     (case Abs env (ImagesDir env @ asset) of
        Inl e \<Rightarrow> (Some e, w)
      | Inr source \<Rightarrow>
          (case Abs env (TargetAssetsDir env @ asset) of
             Inl e \<Rightarrow> (Some e, w)
           | Inr dest \<Rightarrow>
               (case RemoveAll env dest w of
                  Inl e \<Rightarrow> (Some e, w)
                | Inr w1 \<Rightarrow>
                    (case Symlink env source dest w1 of
                       Inl e \<Rightarrow> (Some e, w1)
                     | Inr w2 \<Rightarrow> linkImageAssetsLoop env rest w2))))"

definition linkImageAssets :: "env \<Rightarrow> world \<Rightarrow> error option \<times> world" where
  "linkImageAssets env w =
     (case ReadDir env (ImagesDir env) of
        Inl e \<Rightarrow> (Some e, w)
      | Inr assets \<Rightarrow> linkImageAssetsLoop env assets w)"

text \<open>
  \<open>main\<close>: \<open>log.Fatal\<close> reports the error and ends the process with a failure status;
  returning from \<open>main\<close> ends it with success. The result is how the process ended and
  the world it left. \<open>sorg.InitLog\<close> only sets the level of the log.
\<close>

datatype exit = ExitOK | ExitFatal error

definition main :: "env \<Rightarrow> world \<Rightarrow> exit \<times> world" where
  "main env w =
     (case envDecode env of
        Inl e \<Rightarrow> (ExitFatal e, w)
      | Inr conf \<Rightarrow>
     (case CreateTargetDirs env w of
        (Some e, w1) \<Rightarrow> (ExitFatal e, w1)
      | (None, w1) \<Rightarrow>
     (case compileArticles env conf w1 of
        (Some e, w2) \<Rightarrow> (ExitFatal e, w2)
      | (None, w2) \<Rightarrow>
     (case compileFragments env conf w2 of
        (Some e, w3) \<Rightarrow> (ExitFatal e, w3)
      | (None, w3) \<Rightarrow>
     (case compileRuns env conf w3 of
        (LogFatal e, w4) \<Rightarrow> (ExitFatal e, w4)
      | (Return (Some e), w4) \<Rightarrow> (ExitFatal e, w4)
      | (Return None, w4) \<Rightarrow>
     (case compileStylesheets env w4 of
        (Some e, w5) \<Rightarrow> (ExitFatal e, w5)
      | (None, w5) \<Rightarrow>
     (case linkImageAssets env w5 of
        (Some e, w6) \<Rightarrow> (ExitFatal e, w6)
      | (None, w6) \<Rightarrow> (ExitOK, w6))))))))"

section \<open>Separators of a document\<close>

text \<open>
  An offset is at the start of a line when it is 0 or follows a line feed. A separator
  is an occurrence of \<open>---\<close> at the start of a line, whatever follows it on that line.
\<close>

definition lineStart :: "string \<Rightarrow> nat \<Rightarrow> bool" where
  "lineStart s i = (i = 0 \<or> s ! (i - 1) = CHR 0x0A)"

definition separatorAt :: "string \<Rightarrow> nat \<Rightarrow> bool" where
  "separatorAt s i = (lineStart s i \<and> take 3 (drop i s) = ''---'')"

definition separators :: "string \<Rightarrow> nat list" where
  "separators s = filter (separatorAt s) [0..<length s]"

text \<open>
  The specification's wording of a separator: a line that consists of exactly \<open>---\<close>,
  so that the marker is followed by the end of the line or of the text.
\<close>

definition markerLineAt :: "string \<Rightarrow> nat \<Rightarrow> bool" where
  "markerLineAt s i =
     (separatorAt s i \<and> (i + 3 = length s \<or> s ! (i + 3) = CHR 0x0A))"

definition markerLines :: "string \<Rightarrow> nat list" where
  "markerLines s = filter (markerLineAt s) [0..<length s]"

section \<open>The build as a sequence of stages\<close>

text \<open>
  The specification's wording of the orchestrator: six stages in a fixed order, each
  starting in the world the stage before it left; the first stage that fails ends the
  run with its error, in the world as it is then.
\<close>

type_synonym stage = "world \<Rightarrow> outcome \<times> world"

definition returning :: "(world \<Rightarrow> error option \<times> world) \<Rightarrow> stage" where
  "returning f w = (case f w of (err, w1) \<Rightarrow> (Return err, w1))"

definition stages :: "env \<Rightarrow> Conf \<Rightarrow> stage list" where
  "stages env conf =
     [returning (CreateTargetDirs env),
      returning (compileArticles env conf),
      returning (compileFragments env conf),
      compileRuns env conf,
      returning (compileStylesheets env),
      returning (linkImageAssets env)]"

fun runStages :: "stage list \<Rightarrow> world \<Rightarrow> exit \<times> world" where
  "runStages [] w = (ExitOK, w)"
| "runStages (s # ss) w =
     (case s w of
        (Return None, w1) \<Rightarrow> runStages ss w1
      | (Return (Some e), w1) \<Rightarrow> (ExitFatal e, w1)
      | (LogFatal e, w1) \<Rightarrow> (ExitFatal e, w1))"

section \<open>The sections of the style sheet bundle\<close>

text \<open>
  The specification's wording of what the bundle holds for a style sheet: the content of
  the file, compiled by the preprocessor when the name of the file ends in \<open>.sass\<close>,
  verbatim otherwise; or the error that reading or compiling it gives. A section of the
  bundle is the comment banner with the name of the file, that content and an empty
  line.
\<close>

definition styleContent :: "env \<Rightarrow> string \<Rightarrow> error + string" where
  "styleContent env stylesheet =
     (case srcFile env (StylesheetsDir env @ stylesheet) of
        Inl e \<Rightarrow> Inl e
      | Inr inFile \<Rightarrow>
          if HasSuffix stylesheet ''.sass'' then gcssCompile env inFile
          else (case copyFault env (StylesheetsDir env @ stylesheet) of
                  None \<Rightarrow> Inr inFile
                | Some (n, e) \<Rightarrow> Inl e))"

definition bundleSection :: "env \<Rightarrow> string \<Rightarrow> string" where
  "bundleSection env stylesheet =
     ''/* '' @ stylesheet @ '' */\<newline>\<newline>'' @
     (case styleContent env stylesheet of Inl e \<Rightarrow> '''' | Inr css \<Rightarrow> css) @
     ''\<newline>\<newline>''"

section \<open>An example environment\<close>

text \<open>
  A small site on which the theorems below are instantiated: one article, one fragment,
  one image, the thirteen style sheets, no database. The YAML decoder knows the
  metadata blocks of the examples. Two variants add an article without a title and a
  fragment without a publication date.
\<close>

definition exampleConf :: Conf where
  "exampleConf = \<lparr>BlackSwanDatabaseURL = '''', GoogleAnalyticsID = ''UA-0000-1'', Verbose = False\<rparr>"

definition exampleEnv :: env where
  "exampleEnv =
     \<lparr>ArticlesDir = ''content/articles/'',
      FragmentsDir = ''content/fragments/'',
      ImagesDir = ''content/images/'',
      LayoutsDir = ''layouts/'',
      StylesheetsDir = ''content/stylesheets/'',
      ViewsDir = ''views'',
      TargetDir = ''public/'',
      TargetArticlesDir = ''public/articles/'',
      TargetAssetsDir = ''public/assets/'',
      TargetFragmentsDir = ''public/fragments/'',
      TargetVersionedAssetsDir = ''public/assets/1/'',
      Release = ''1'',
      CreateTargetDirs = (\<lambda>w. (None, w)),
      envDecode = Inr exampleConf,
      ReadDir = (\<lambda>dir.
        if dir = ''content/articles/'' then Inr [''hello.md'']
        else if dir = ''content/fragments/'' then Inr [''note.md'']
        else if dir = ''content/images/'' then Inr [''logo.png'']
        else Inl (External ''no such directory'')),
      srcFile = (\<lambda>path.
        if path = ''content/articles/hello.md''
        then Inr ''---\<newline>title: Hello\<newline>---\<newline>Body *text*''
        else if path = ''content/fragments/note.md''
        then Inr ''---\<newline>title: Note\<newline>---\<newline>Body''
        else if take 20 path = ''content/stylesheets/''
        then Inr ''a: b''
        else Inl (External ''no such file'')),
      copyFault = (\<lambda>path. None),
      yamlArticle = (\<lambda>block.
        if block = ''title: Hello''
        then Inr \<lparr>Attributions = '''', Article.Content = '''', HNLink = '''', Hook = '''',
                  Article.Image = '''', Article.PublishedAt = Some (Time 1577836800),
                  Article.Title = ''Hello'', TOC = ''''\<rparr>
        else if block = ''hook: x''
        then Inr \<lparr>Attributions = '''', Article.Content = '''', HNLink = '''', Hook = ''x'',
                  Article.Image = '''', Article.PublishedAt = None,
                  Article.Title = '''', TOC = ''''\<rparr>
        else Inl (External ''yaml: cannot unmarshal'')),
      yamlFragment = (\<lambda>block.
        if block = ''title: Note''
        then Inr \<lparr>Fragment.Content = '''', Fragment.Image = '''',
                  Fragment.PublishedAt = Some (Time 1577836800), Fragment.Title = ''Note''\<rparr>
        else if block = ''title: Undated''
        then Inr \<lparr>Fragment.Content = '''', Fragment.Image = '''',
                  Fragment.PublishedAt = None, Fragment.Title = ''Undated''\<rparr>
        else if block = ''''
        then Inr \<lparr>Fragment.Content = '''', Fragment.Image = '''',
                  Fragment.PublishedAt = None, Fragment.Title = ''''\<rparr>
        else Inl (External ''yaml: cannot unmarshal'')),
      Markdown = (\<lambda>source. ''<p>'' @ source @ ''</p>''),
      aceLoad = (\<lambda>layout view. Inr (\<lambda>locals. (''<html></html>'', None))),
      gcssCompile = (\<lambda>source. Inr (''a{'' @ source @ ''}'')),
      createErr = (\<lambda>path. None),
      Abs = (\<lambda>path. Inr (''/site/'' @ path)),
      removeAllErr = (\<lambda>path. None),
      symlinkErr = (\<lambda>source dest. None),
      sqlOpen = (\<lambda>driver url. None),
      queryRecentRuns = Inr \<lparr>scans = [], rowsErr = None\<rparr>,
      queryLastYear = Inr \<lparr>scans = [], rowsErr = None\<rparr>,
      queryByYear = Inr \<lparr>scans = [], rowsErr = None\<rparr>\<rparr>"

definition emptyWorld :: world where
  "emptyWorld = \<lparr>files = Map.empty, symlinks = Map.empty, dbLog = [], executed = []\<rparr>"

definition untitledEnv :: env where
  "untitledEnv =
     exampleEnv
       \<lparr>ReadDir := (\<lambda>dir.
          if dir = ''content/articles/'' then Inr [''hello.md'', ''untitled.md'']
          else ReadDir exampleEnv dir),
        srcFile := (\<lambda>path.
          if path = ''content/articles/untitled.md''
          then Inr ''---\<newline>hook: x\<newline>---\<newline>Body''
          else srcFile exampleEnv path)\<rparr>"

definition undatedEnv :: env where
  "undatedEnv =
     exampleEnv
       \<lparr>ReadDir := (\<lambda>dir.
          if dir = ''content/fragments/'' then Inr [''note.md'', ''undated.md'', ''plain.md'']
          else ReadDir exampleEnv dir),
        srcFile := (\<lambda>path.
          if path = ''content/fragments/undated.md''
          then Inr ''---\<newline>title: Undated\<newline>---\<newline>Body''
          else if path = ''content/fragments/plain.md''
          then Inr ''Body without metadata''
          else srcFile exampleEnv path)\<rparr>"

section \<open>Lemmas about the splitter\<close>

lemma findAllFrom_separatorAt:
  "findAllFrom (length p) (lineStart (p @ t) (length p)) t =
     map (\<lambda>i. (i, i + 3)) (filter (separatorAt (p @ t)) [length p..<length (p @ t)])"
proof (induction t arbitrary: p rule: length_induct)
  case (1 t)
  show ?case
  proof (cases "t = []")
    case True
    then show ?thesis by (simp add: findAllFrom.simps)
  next
    case False
    show ?thesis
    proof (cases "lineStart (p @ t) (length p) \<and> take 3 t = ''---''")
      case True
      then obtain t' where t: "t = ''---'' @ t'"
        by (metis append_take_drop_id)
      have e1: "(p @ ''---'') @ t' = p @ t" unfolding t by simp
      have e2: "length (p @ ''---'') = length p + 3" by simp
      have "length t' < length t" unfolding t by simp
      then have "findAllFrom (length (p @ ''---''))
                   (lineStart ((p @ ''---'') @ t') (length (p @ ''---''))) t' =
                 map (\<lambda>i. (i, i + 3))
                   (filter (separatorAt ((p @ ''---'') @ t'))
                      [length (p @ ''---'')..<length ((p @ ''---'') @ t')])"
        using 1 by blast
      then have ih: "findAllFrom (length p + 3) (lineStart (p @ t) (length p + 3)) t' =
          map (\<lambda>i. (i, i + 3)) (filter (separatorAt (p @ t)) [length p + 3..<length (p @ t)])"
        by (simp only: e1 e2)
      have nb: "lineStart (p @ t) (length p + 3) = False"
        unfolding t by (simp add: lineStart_def nth_append)
      have s0: "separatorAt (p @ t) (length p)"
        using True by (simp add: separatorAt_def)
      have s1: "\<not> separatorAt (p @ t) (Suc (length p))"
        unfolding t by (simp add: separatorAt_def lineStart_def nth_append)
      have s2: "\<not> separatorAt (p @ t) (Suc (Suc (length p)))"
        unfolding t by (simp add: separatorAt_def lineStart_def nth_append)
      have "length (p @ t) = Suc (Suc (Suc (length p + length t')))"
        unfolding t by simp
      moreover have "length p + 3 = Suc (Suc (Suc (length p)))" by simp
      ultimately have rng: "[length p..<length (p @ t)] =
          length p # Suc (length p) # Suc (Suc (length p)) # [length p + 3..<length (p @ t)]"
        by (simp only: upt_conv_Cons lessI less_SucI less_add_Suc1)
      have "findAllFrom (length p) (lineStart (p @ t) (length p)) t =
            (length p, length p + 3) # findAllFrom (length p + 3) False (drop 3 t)"
        using True False by (subst findAllFrom.simps) simp
      also have "drop 3 t = t'" unfolding t by simp
      also have "findAllFrom (length p + 3) False t' =
         map (\<lambda>i. (i, i + 3)) (filter (separatorAt (p @ t)) [length p + 3..<length (p @ t)])"
        using ih by (simp only: nb)
      finally show ?thesis
        using s0 s1 s2 by (simp only: rng filter.simps if_True if_False list.map)
    next
      case F2: False
      obtain c cs where t: "t = c # cs" using False by (cases t) auto
      have e1: "(p @ [c]) @ cs = p @ t" unfolding t by simp
      have e2: "length (p @ [c]) = Suc (length p)" by simp
      have "length cs < length t" unfolding t by simp
      then have "findAllFrom (length (p @ [c]))
                   (lineStart ((p @ [c]) @ cs) (length (p @ [c]))) cs =
                 map (\<lambda>i. (i, i + 3))
                   (filter (separatorAt ((p @ [c]) @ cs))
                      [length (p @ [c])..<length ((p @ [c]) @ cs)])"
        using 1 by blast
      then have ih: "findAllFrom (Suc (length p)) (lineStart (p @ t) (Suc (length p))) cs =
          map (\<lambda>i. (i, i + 3)) (filter (separatorAt (p @ t)) [Suc (length p)..<length (p @ t)])"
        by (simp only: e1 e2)
      have ls: "lineStart (p @ t) (Suc (length p)) = (c = CHR 0x0A)"
        unfolding t by (simp add: lineStart_def nth_append)
      have s0: "\<not> separatorAt (p @ t) (length p)"
        using F2 by (simp add: separatorAt_def)
      have "length (p @ t) = Suc (length p + length cs)"
        unfolding t by simp
      then have rng: "[length p..<length (p @ t)] = length p # [Suc (length p)..<length (p @ t)]"
        by (simp only: upt_conv_Cons lessI less_SucI less_add_Suc1)
      have "findAllFrom (length p) (lineStart (p @ t) (length p)) t =
            findAllFrom (length p + 1) (hd t = CHR 0x0A) (tl t)"
        using F2 False by (subst findAllFrom.simps) auto
      also have "\<dots> = findAllFrom (Suc (length p)) (lineStart (p @ t) (Suc (length p))) cs"
        unfolding ls unfolding t by simp
      finally show ?thesis
        using s0 by (simp only: ih rng filter.simps if_False)
    qed
  qed
qed

lemma findAllFrom_separators:
  "findAllFrom 0 True s = map (\<lambda>i. (i, i + 3)) (separators s)"
  using findAllFrom_separatorAt [of "[]" s] by (simp add: lineStart_def separators_def)

lemma separatorAt_bound: "separatorAt s i \<Longrightarrow> i + 3 \<le> length s"
proof -
  assume "separatorAt s i"
  then have "length (take 3 (drop i s)) = 3" by (simp add: separatorAt_def)
  then show ?thesis by simp
qed

lemma separators_bound: "i \<in> set (separators s) \<Longrightarrow> i + 3 \<le> length s"
  by (simp add: separators_def separatorAt_bound)

lemma Split_by_separators:
  "Split content 3 =
     (case separators content of
        [] \<Rightarrow> [content]
      | [i] \<Rightarrow> [take i content, drop (i + 3) content]
      | i # j # _ \<Rightarrow>
          [take i content, take (j - (i + 3)) (drop (i + 3) content), drop (j + 3) content])"
proof (cases "content = []")
  case True
  then show ?thesis by (simp add: Split_def separators_def)
next
  case False
  have fa: "FindAllStringIndex content 3 = take 3 (map (\<lambda>i. (i, i + 3)) (separators content))"
    by (simp add: FindAllStringIndex_def findAllFrom_separators)
  show ?thesis
  proof (cases "separators content")
    case Nil
    then show ?thesis using False by (simp add: Split_def fa)
  next
    case (Cons i r1)
    then have bi: "i + 3 \<le> length content"
      using separators_bound [of i content] by simp
    show ?thesis
    proof (cases r1)
      case Nil
      then show ?thesis using False Cons bi by (simp add: Split_def fa)
    next
      case (Cons j r2)
      then have bj: "j + 3 \<le> length content"
        using separators_bound [of j content] \<open>separators content = i # r1\<close> by simp
      show ?thesis
      proof (cases r2)
        case Nil
        then show ?thesis
          using False Cons \<open>separators content = i # r1\<close> bi bj by (simp add: Split_def fa)
      next
        case (Cons k r3)
        then show ?thesis
          using False \<open>r1 = j # r2\<close> \<open>separators content = i # r1\<close> bi bj
          by (simp add: Split_def fa)
      qed
    qed
  qed
qed

lemma splitFrontmatter_by_separators:
  "splitFrontmatter content =
     (case separators content of
        [] \<Rightarrow> Inr ('''', TrimSpace content)
      | [i] \<Rightarrow>
          if i \<noteq> 0 then Inl errBadFrontmatter
          else Inr ('''', TrimSpace (drop 3 content))
      | i # j # _ \<Rightarrow>
          if i \<noteq> 0 then Inl errBadFrontmatter
          else Inr (TrimSpace (take (j - 3) (drop 3 content)), TrimSpace (drop (j + 3) content)))"
proof (cases "separators content")
  case Nil
  then show ?thesis by (simp add: splitFrontmatter_def Split_by_separators)
next
  case (Cons i r1)
  then have bi: "i + 3 \<le> length content"
    using separators_bound [of i content] by simp
  then have ne: "(take i content = []) = (i = 0)" by auto
  show ?thesis
  proof (cases r1)
    case Nil
    then show ?thesis
      using Cons ne by (simp add: splitFrontmatter_def Split_by_separators)
  next
    case (Cons j r2)
    then show ?thesis
      using \<open>separators content = i # r1\<close> ne
      by (simp add: splitFrontmatter_def Split_by_separators)
  qed
qed

lemma splitFrontmatter_never_panics: "splitFrontmatter content \<noteq> Inl PanicIndexOutOfRange"
  by (simp add: splitFrontmatter_by_separators split: list.split)

section \<open>Lemmas about the build\<close>

lemma compileArticlesLoop_append:
  "compileArticlesLoop env conf (pre @ rest) w =
     (case compileArticlesLoop env conf pre w of
        (Some e, w1) \<Rightarrow> (Some e, w1)
      | (None, w1) \<Rightarrow> compileArticlesLoop env conf rest w1)"
  by (induction pre arbitrary: w) (auto split: prod.splits option.splits)

lemma compileFragmentsLoop_append:
  "compileFragmentsLoop env conf (pre @ rest) w =
     (case compileFragmentsLoop env conf pre w of
        (Some e, w1) \<Rightarrow> (Some e, w1)
      | (None, w1) \<Rightarrow> compileFragmentsLoop env conf rest w1)"
  by (induction pre arbitrary: w) (auto split: prod.splits option.splits)

lemma compileArticle_decoded:
  assumes "srcFile env (ArticlesDir env @ name) = Inr raw"
    and "splitFrontmatter raw = Inr (block, body)"
    and "yamlArticle env block = Inr article"
  shows "compileArticle env conf name w =
     (if Article.Title article = '''' then
        (Some (Errorf (''No title for article: '' @ ArticlesDir env @ name)), w)
      else if Article.PublishedAt article = None then
        (Some (Errorf (''No publish date for article: '' @ ArticlesDir env @ name)), w)
      else
        renderView env (LayoutsDir env @ ''main'') (ViewsDir env @ ''/articles/show'')
          (TargetArticlesDir env @ Replace name ''.md'' '''')
          (getLocals env conf (Article.Title article)
             [''Article'' \<mapsto> VArticle (article\<lparr>Article.Content := Markdown env body, TOC := ''''\<rparr>)])
          w)"
  using assms by (simp add: compileArticle_def Let_def)

lemma compileFragment_decoded:
  assumes "srcFile env (FragmentsDir env @ name) = Inr raw"
    and "splitFrontmatter raw = Inr (block, body)"
    and "yamlFragment env block = Inr fragment"
  shows "compileFragment env conf name w =
     (if Fragment.Title fragment = '''' then
        (Some (Errorf (''No title for fragment: '' @ FragmentsDir env @ name)), w)
      else if Fragment.PublishedAt fragment = None then
        (Some (Errorf (''No publish date for fragment: '' @ FragmentsDir env @ name)), w)
      else
        renderView env (LayoutsDir env @ ''main'') (ViewsDir env @ ''/fragments/show'')
          (TargetFragmentsDir env @ Replace name ''.md'' '''')
          (getLocals env conf (Fragment.Title fragment)
             [''Fragment'' \<mapsto> VFragment (fragment\<lparr>Fragment.Content := Markdown env body\<rparr>)])
          w)"
  using assms by (simp add: compileFragment_def Let_def)

lemma main_article_failure:
  assumes "envDecode env = Inr conf"
    and "CreateTargetDirs env w0 = (None, w1)"
    and "ReadDir env (ArticlesDir env) = Inr (pre @ name # post)"
    and "compileArticlesLoop env conf pre w1 = (None, w)"
    and "compileArticle env conf name w = (Some e, w2)"
  shows "main env w0 = (ExitFatal e, w2)"
  using assms by (simp add: main_def compileArticles_def compileArticlesLoop_append)

lemma main_fragment_failure:
  assumes "envDecode env = Inr conf"
    and "CreateTargetDirs env w0 = (None, w1)"
    and "compileArticles env conf w1 = (None, wa)"
    and "ReadDir env (FragmentsDir env) = Inr (pre @ name # post)"
    and "compileFragmentsLoop env conf pre wa = (None, w)"
    and "compileFragment env conf name w = (Some e, w2)"
  shows "main env w0 = (ExitFatal e, w2)"
  using assms by (simp add: main_def compileFragments_def compileFragmentsLoop_append)

lemma compileStylesheetsLoop_ok:
  assumes "files w outFile = Some acc"
    and "\<forall>stylesheet \<in> set names. \<exists>css. styleContent env stylesheet = Inr css"
  shows "compileStylesheetsLoop env outFile names w =
     (None, w\<lparr>files := (files w)(outFile \<mapsto> acc @ concat (map (bundleSection env) names))\<rparr>)"
  using assms
proof (induction names arbitrary: w acc)
  case Nil
  then have "(files w)(outFile \<mapsto> acc) = files w" by (simp add: fun_upd_idem)
  then show ?case by simp
next
  case (Cons stylesheet rest)
  then obtain css where css: "styleContent env stylesheet = Inr css" by auto
  then obtain inFile where src: "srcFile env (StylesheetsDir env @ stylesheet) = Inr inFile"
    by (auto simp: styleContent_def split: sum.splits)
  let ?w2 = "WriteString outFile ''\<newline>\<newline>''
               (WriteString outFile css
                  (WriteString outFile (''/* '' @ stylesheet @ '' */\<newline>\<newline>'') w))"
  have step: "compileStylesheetsLoop env outFile (stylesheet # rest) w =
      compileStylesheetsLoop env outFile rest ?w2"
    using css src
    by (auto simp: styleContent_def Copy_def Let_def split: if_splits option.splits)
  have f2: "files ?w2 outFile = Some (acc @ bundleSection env stylesheet)"
    using Cons.prems(1) css by (simp add: WriteString_def bundleSection_def)
  have w2: "?w2 = w\<lparr>files := (files w)(outFile \<mapsto> acc @ bundleSection env stylesheet)\<rparr>"
    using Cons.prems(1) css by (simp add: WriteString_def bundleSection_def)
  have r: "\<forall>stylesheet \<in> set rest. \<exists>css. styleContent env stylesheet = Inr css"
    using Cons.prems(2) by simp
  have ih: "compileStylesheetsLoop env outFile rest ?w2 =
     (None, ?w2\<lparr>files := (files ?w2)(outFile \<mapsto>
         (acc @ bundleSection env stylesheet) @ concat (map (bundleSection env) rest))\<rparr>)"
    by (rule Cons.IH [OF f2 r])
  have "?w2\<lparr>files := (files ?w2)(outFile \<mapsto>
         (acc @ bundleSection env stylesheet) @ concat (map (bundleSection env) rest))\<rparr> =
      w\<lparr>files := (files w)(outFile \<mapsto>
         acc @ concat (map (bundleSection env) (stylesheet # rest)))\<rparr>"
    by (simp only: w2) simp
  then show ?case
    by (simp only: step ih)
qed

lemma compileStylesheets_ok:
  assumes "createErr env (TargetVersionedAssetsDir env @ ''app.css'') = None"
    and "\<forall>stylesheet \<in> set stylesheets. \<exists>css. styleContent env stylesheet = Inr css"
  shows "compileStylesheets env w =
     (None, w\<lparr>files := (files w)(TargetVersionedAssetsDir env @ ''app.css'' \<mapsto>
                concat (map (bundleSection env) stylesheets))\<rparr>)"
proof -
  let ?out = "TargetVersionedAssetsDir env @ ''app.css''"
  let ?w1 = "w\<lparr>files := (files w)(?out \<mapsto> '''')\<rparr>"
  have "files ?w1 ?out = Some ''''" by simp
  then have "compileStylesheetsLoop env ?out stylesheets ?w1 =
     (None, ?w1\<lparr>files := (files ?w1)(?out \<mapsto> '''' @ concat (map (bundleSection env) stylesheets))\<rparr>)"
    using assms(2) by (rule compileStylesheetsLoop_ok)
  then show ?thesis
    using assms(1) by (simp add: compileStylesheets_def Create_def Let_def)
qed

lemma runStages_append:
  "runStages (pre @ rest) w =
     (case runStages pre w of
        (ExitOK, w1) \<Rightarrow> runStages rest w1
      | (ExitFatal e, w1) \<Rightarrow> (ExitFatal e, w1))"
  by (induction pre arbitrary: w)
    (auto split: prod.splits option.splits outcome.splits exit.splits)

lemma main_runStages:
  "envDecode env = Inr conf \<Longrightarrow> main env w = runStages (stages env conf) w"
  by (simp add: main_def stages_def returning_def
      split: prod.splits option.splits outcome.splits)

lemma renderView_dbLog: "dbLog (snd (renderView env layout view target locals w)) = dbLog w"
  by (simp add: renderView_def Create_def WriteString_def
      split: sum.splits prod.splits option.splits)

lemma renderView_loaded:
  assumes "aceLoad env layout view = Inr template"
    and "createErr env target = None"
  shows "fst (renderView env layout view target locals w) = snd (template locals)"
    and "executed (snd (renderView env layout view target locals w)) =
           executed w @ [(target, locals)]"
  using assms
  by (simp_all add: renderView_def Create_def WriteString_def split: prod.splits)

section \<open>Facts about the example environment\<close>

lemma untitled_src:
  "srcFile untitledEnv (ArticlesDir untitledEnv @ ''untitled.md'') =
     Inr ''---\<newline>hook: x\<newline>---\<newline>Body''"
  by (simp add: untitledEnv_def exampleEnv_def)

lemma untitled_split:
  "splitFrontmatter ''---\<newline>hook: x\<newline>---\<newline>Body'' = Inr (''hook: x'', ''Body'')"
  by code_simp

lemma untitled_yaml:
  "yamlArticle untitledEnv ''hook: x'' =
     Inr \<lparr>Attributions = '''', Article.Content = '''', HNLink = '''', Hook = ''x'',
          Article.Image = '''', Article.PublishedAt = None, Article.Title = '''', TOC = ''''\<rparr>"
  by (simp add: untitledEnv_def exampleEnv_def)

lemma plain_src:
  "srcFile undatedEnv (FragmentsDir undatedEnv @ ''plain.md'') = Inr ''Body without metadata''"
  by (simp add: undatedEnv_def exampleEnv_def)

lemma plain_split:
  "splitFrontmatter ''Body without metadata'' = Inr ('''', ''Body without metadata'')"
  by code_simp

lemma plain_yaml:
  "yamlFragment undatedEnv '''' =
     Inr \<lparr>Fragment.Content = '''', Fragment.Image = '''', Fragment.PublishedAt = None,
          Fragment.Title = ''''\<rparr>"
  by (simp add: undatedEnv_def exampleEnv_def)

lemma hello_split:
  "splitFrontmatter ''---\<newline>title: Hello\<newline>---\<newline>Body *text*'' =
     Inr (''title: Hello'', ''Body *text*'')"
  by code_simp

lemma note_split:
  "splitFrontmatter ''---\<newline>title: Note\<newline>---\<newline>Body'' = Inr (''title: Note'', ''Body'')"
  by code_simp

lemma undated_split:
  "splitFrontmatter ''---\<newline>title: Undated\<newline>---\<newline>Body'' =
     Inr (''title: Undated'', ''Body'')"
  by code_simp

lemma Replace_hello: "Replace ''hello.md'' ''.md'' '''' = ''hello''"
  by code_simp

lemma Replace_note: "Replace ''note.md'' ''.md'' '''' = ''note''"
  by code_simp

lemma hello_compiles:
  "fst (compileArticle exampleEnv exampleConf ''hello.md'' w) = None"
  "fst (compileArticle untitledEnv exampleConf ''hello.md'' w) = None"
  "fst (compileArticle undatedEnv exampleConf ''hello.md'' w) = None"
  by (simp_all add: compileArticle_def renderView_def Create_def untitledEnv_def undatedEnv_def
      exampleEnv_def hello_split Let_def)

lemma note_compiles:
  "fst (compileFragment undatedEnv exampleConf ''note.md'' w) = None"
  "fst (compileFragment exampleEnv exampleConf ''note.md'' w) = None"
  by (simp_all add: compileFragment_def renderView_def Create_def undatedEnv_def
      exampleEnv_def note_split Let_def)

lemma undated_articles_compile:
  "compileArticles undatedEnv exampleConf w =
     (None, snd (compileArticle undatedEnv exampleConf ''hello.md'' w))"
proof -
  have "ReadDir undatedEnv (ArticlesDir undatedEnv) = Inr [''hello.md'']"
    by (simp add: undatedEnv_def exampleEnv_def)
  then show ?thesis
    using hello_compiles(3) [of w]
    by (cases "compileArticle undatedEnv exampleConf ''hello.md'' w")
      (simp add: compileArticles_def)
qed

lemma example_styleContent:
  "map (styleContent exampleEnv) stylesheets =
     map (\<lambda>stylesheet. if stylesheet = ''solarized-light.css'' then Inr ''a: b''
                        else Inr ''a{a: b}'') stylesheets"
  by (simp add: stylesheets_def styleContent_def HasSuffix_def exampleEnv_def)

lemma example_bundleSection:
  "map (bundleSection exampleEnv) stylesheets =
     map (\<lambda>stylesheet.
            ''/* '' @ stylesheet @ '' */\<newline>\<newline>'' @
            (if stylesheet = ''solarized-light.css'' then ''a: b'' else ''a{a: b}'') @
            ''\<newline>\<newline>'') stylesheets"
  by (simp add: stylesheets_def bundleSection_def styleContent_def HasSuffix_def exampleEnv_def)

lemma example_styles_ok:
  "\<forall>stylesheet \<in> set stylesheets. \<exists>css. styleContent exampleEnv stylesheet = Inr css"
  by (simp add: stylesheets_def styleContent_def HasSuffix_def exampleEnv_def)

lemma example_runs:
  "fst (compileRuns exampleEnv exampleConf w) = Return None"
  "map (\<lambda>(target, locals). (target, locals ''Runs''))
     (executed (snd (compileRuns exampleEnv exampleConf w))) =
   map (\<lambda>(target, locals). (target, locals ''Runs'')) (executed w) @
     [(''public/runs'', Some (VRuns NilSlice))]"
  "dbLog (snd (compileRuns exampleEnv exampleConf w)) = dbLog w"
  by (simp_all add: compileRuns_def renderRuns_def renderView_def Create_def WriteString_def
      getLocals_def exampleEnv_def exampleConf_def)

lemma example_articles:
  "compileArticles exampleEnv exampleConf w =
     (None, snd (compileArticle exampleEnv exampleConf ''hello.md'' w))"
proof -
  have "ReadDir exampleEnv (ArticlesDir exampleEnv) = Inr [''hello.md'']"
    by (simp add: exampleEnv_def)
  then show ?thesis
    using hello_compiles(1) [of w]
    by (cases "compileArticle exampleEnv exampleConf ''hello.md'' w")
      (simp add: compileArticles_def)
qed

lemma example_fragments:
  "compileFragments exampleEnv exampleConf w =
     (None, snd (compileFragment exampleEnv exampleConf ''note.md'' w))"
proof -
  have "ReadDir exampleEnv (FragmentsDir exampleEnv) = Inr [''note.md'']"
    by (simp add: exampleEnv_def)
  then show ?thesis
    using note_compiles(2) [of w]
    by (cases "compileFragment exampleEnv exampleConf ''note.md'' w")
      (simp add: compileFragments_def)
qed

lemma example_stylesheets: "fst (compileStylesheets exampleEnv w) = None"
proof -
  have "createErr exampleEnv (TargetVersionedAssetsDir exampleEnv @ ''app.css'') = None"
    by (simp add: exampleEnv_def)
  then show ?thesis
    using compileStylesheets_ok [of exampleEnv w] example_styles_ok by simp
qed

lemma example_links:
  "fst (linkImageAssets exampleEnv w) = None"
  "symlinks (snd (linkImageAssets exampleEnv w)) ''/site/public/assets/logo.png'' =
     Some ''/site/content/images/logo.png''"
  by (simp_all add: linkImageAssets_def RemoveAll_def Symlink_def below_def exampleEnv_def)

lemma untitled_articles:
  "compileArticles untitledEnv exampleConf w =
     (Some (Errorf ''No title for article: content/articles/untitled.md''),
      snd (compileArticle untitledEnv exampleConf ''hello.md'' w))"
proof -
  have rd: "ReadDir untitledEnv (ArticlesDir untitledEnv) = Inr [''hello.md'', ''untitled.md'']"
    by (simp add: untitledEnv_def exampleEnv_def)
  obtain w1 where h: "compileArticle untitledEnv exampleConf ''hello.md'' w = (None, w1)"
    using hello_compiles(2) [of w]
    by (cases "compileArticle untitledEnv exampleConf ''hello.md'' w") simp
  have u: "compileArticle untitledEnv exampleConf ''untitled.md'' w1 =
      (Some (Errorf (''No title for article: '' @ ArticlesDir untitledEnv @ ''untitled.md'')), w1)"
    using compileArticle_decoded [OF untitled_src untitled_split untitled_yaml, of exampleConf w1]
    by simp
  have "ArticlesDir untitledEnv = ''content/articles/''"
    by (simp add: untitledEnv_def exampleEnv_def)
  then show ?thesis
    using rd h u by (simp add: compileArticles_def)
qed

lemma hello_written:
  "files (snd (compileArticle untitledEnv exampleConf ''hello.md'' emptyWorld))
     ''public/articles/hello'' = Some ''<html></html>''"
  "files (snd (compileArticle untitledEnv exampleConf ''hello.md'' emptyWorld))
     ''public/assets/1/app.css'' = None"
  by (simp_all add: compileArticle_def renderView_def Create_def WriteString_def untitledEnv_def
      exampleEnv_def hello_split Replace_hello emptyWorld_def Let_def)

section \<open>Properties of the frontmatter splitter\<close>

text \<open>
  Claim C1, as the code has it. For every text with at least one separator,
  \<open>splitFrontmatter\<close> fails with \<open>errBadFrontmatter\<close> if and only if the text before the
  first separator is not empty: the code compares that text with the empty string, so
  any character before the first separator, white space included, makes it fail.
\<close>

theorem splitFrontmatter_fails_iff_leading_text:
  assumes "separators content \<noteq> []"
  shows "(splitFrontmatter content = Inl errBadFrontmatter) =
         (take (hd (separators content)) content \<noteq> '''')"
proof -
  obtain i r where s: "separators content = i # r"
    using assms by (cases "separators content") auto
  then have "i + 3 \<le> length content"
    using separators_bound [of i content] by simp
  then have ne: "(take i content = []) = (i = 0)" by auto
  show ?thesis
    using s ne by (cases r) (simp_all add: splitFrontmatter_by_separators)
qed

text \<open>
  The theorem at two texts: one line before the separator (failure) and nothing before
  it (no failure).
\<close>

theorem splitFrontmatter_fails_iff_leading_text_witness:
  "separators ''x\<newline>---\<newline>y'' \<noteq> [] \<and>
   take (hd (separators ''x\<newline>---\<newline>y'')) ''x\<newline>---\<newline>y'' = ''x\<newline>'' \<and>
   splitFrontmatter ''x\<newline>---\<newline>y'' = Inl errBadFrontmatter \<and>
   separators ''---\<newline>y'' \<noteq> [] \<and>
   take (hd (separators ''---\<newline>y'')) ''---\<newline>y'' = '''' \<and>
   splitFrontmatter ''---\<newline>y'' \<noteq> Inl errBadFrontmatter"
proof -
  have s1: "separators ''x\<newline>---\<newline>y'' = [2]" by code_simp
  have s2: "separators ''---\<newline>y'' = [0]" by code_simp
  have n1: "separators ''x\<newline>---\<newline>y'' \<noteq> []" by (simp add: s1)
  have n2: "separators ''---\<newline>y'' \<noteq> []" by (simp add: s2)
  show ?thesis
    using splitFrontmatter_fails_iff_leading_text [OF n1]
      splitFrontmatter_fails_iff_leading_text [OF n2]
    by (simp add: s1 s2)
qed

text \<open>
  Claim C1 as stated says that leading text of white space only does not make the
  splitter fail. A document that starts with an empty line before its frontmatter has a
  separator and only white space before it, and the splitter fails.
\<close>

theorem whitespace_before_separator_counterexample:
  "separators ''\<newline>---\<newline>title: x\<newline>---\<newline>body'' \<noteq> [] \<and>
   TrimSpace (take (hd (separators ''\<newline>---\<newline>title: x\<newline>---\<newline>body''))
                ''\<newline>---\<newline>title: x\<newline>---\<newline>body'') = '''' \<and>
   splitFrontmatter ''\<newline>---\<newline>title: x\<newline>---\<newline>body'' = Inl errBadFrontmatter"
  by code_simp

text \<open>
  Claim C2, as the code has it. \<open>splitFrontmatter\<close> recognises as a separator every
  occurrence of \<open>---\<close> at the start of a line, whatever follows it on the line, and it
  recognises at most two of them: its result is fixed by the first two separators of
  the text, and every further one stays in the body. With no separator the whole text
  is the body; with separators, text before the first one is an error; otherwise the
  text is cut at the first separator, or at the first two, into at most three parts.
\<close>

theorem splitFrontmatter_separators:
  "splitFrontmatter content =
     (case separators content of
        [] \<Rightarrow> Inr ('''', TrimSpace content)
      | [i] \<Rightarrow>
          if i \<noteq> 0 then Inl errBadFrontmatter
          else Inr ('''', TrimSpace (drop 3 content))
      | i # j # _ \<Rightarrow>
          if i \<noteq> 0 then Inl errBadFrontmatter
          else Inr (TrimSpace (take (j - 3) (drop 3 content)),
                    TrimSpace (drop (j + 3) content)))"
  by (rule splitFrontmatter_by_separators)

text \<open>
  The theorem at a text with three separators, none of them a line of exactly \<open>---\<close>:
  the first two cut the text, the third stays in the body.
\<close>

theorem splitFrontmatter_separators_witness:
  "separators ''---x\<newline>a\<newline>--- \<newline>b\<newline>----\<newline>c'' = [0, 7, 14] \<and>
   markerLines ''---x\<newline>a\<newline>--- \<newline>b\<newline>----\<newline>c'' = [] \<and>
   splitFrontmatter ''---x\<newline>a\<newline>--- \<newline>b\<newline>----\<newline>c'' =
     Inr (''x\<newline>a'', ''b\<newline>----\<newline>c'')"
proof -
  have s: "separators ''---x\<newline>a\<newline>--- \<newline>b\<newline>----\<newline>c'' = [0, 7, 14]"
    by code_simp
  have m: "markerLines ''---x\<newline>a\<newline>--- \<newline>b\<newline>----\<newline>c'' = []"
    by code_simp
  have t1: "TrimSpace (take (7 - 3) (drop 3 ''---x\<newline>a\<newline>--- \<newline>b\<newline>----\<newline>c'')) =
      ''x\<newline>a''"
    by code_simp
  have t2: "TrimSpace (drop (7 + 3) ''---x\<newline>a\<newline>--- \<newline>b\<newline>----\<newline>c'') =
      ''b\<newline>----\<newline>c''"
    by code_simp
  have "splitFrontmatter ''---x\<newline>a\<newline>--- \<newline>b\<newline>----\<newline>c'' =
      Inr (TrimSpace (take (7 - 3) (drop 3 ''---x\<newline>a\<newline>--- \<newline>b\<newline>----\<newline>c'')),
           TrimSpace (drop (7 + 3) ''---x\<newline>a\<newline>--- \<newline>b\<newline>----\<newline>c''))"
    using splitFrontmatter_separators [of "''---x\<newline>a\<newline>--- \<newline>b\<newline>----\<newline>c''"]
    by (simp only: s list.case) simp
  then show ?thesis
    using s m by (simp only: t1 t2 simp_thms)
qed

text \<open>
  Claim C2 as stated says that a line with more characters after \<open>---\<close> is not a
  separator. The text \<open>---x\<close>, line feed, \<open>body\<close> has no line that consists of exactly
  \<open>---\<close>, yet the pattern matches at offset 0 and the text is split there: the body is
  \<open>x\<close>, line feed, \<open>body\<close>.
\<close>

theorem marker_with_trailing_text_counterexample:
  "markerLines ''---x\<newline>body'' = [] \<and>
   FindAllStringIndex ''---x\<newline>body'' 3 = [(0, 3)] \<and>
   Split ''---x\<newline>body'' 3 = ['''', ''x\<newline>body''] \<and>
   splitFrontmatter ''---x\<newline>body'' = Inr ('''', ''x\<newline>body'')"
  by code_simp

text \<open>
  Claim C3, as the code has it: the case analysis holds when every \<open>---\<close> at the start
  of a line counts as a separator. With no such separator the metadata block is empty
  and the body is the whole text, trimmed. With exactly one, at the start of the text,
  the metadata block is empty and the body is the text after the marker, trimmed. With
  exactly two, the first at the start of the text, the metadata block is the trimmed
  text between the markers and the body the trimmed text after the second. (Offsets:
  the first marker is at 0 and ends at 3, the second is at \<open>j\<close>.) In particular the
  analysis holds as the claim words it, counting the lines of exactly \<open>---\<close>, for every
  text in which no other line starts with \<open>---\<close>.
\<close>

theorem splitFrontmatter_cases:
  "(separators content = [] \<longrightarrow> splitFrontmatter content = Inr ('''', TrimSpace content)) \<and>
   (separators content = [0] \<longrightarrow>
      splitFrontmatter content = Inr ('''', TrimSpace (drop 3 content))) \<and>
   (separators content = [0, j] \<longrightarrow>
      splitFrontmatter content =
        Inr (TrimSpace (take (j - 3) (drop 3 content)), TrimSpace (drop (j + 3) content))) \<and>
   (separators content = markerLines content \<longrightarrow>
      (markerLines content = [] \<longrightarrow>
         splitFrontmatter content = Inr ('''', TrimSpace content)) \<and>
      (markerLines content = [0] \<longrightarrow>
         splitFrontmatter content = Inr ('''', TrimSpace (drop 3 content))) \<and>
      (markerLines content = [0, j] \<longrightarrow>
         splitFrontmatter content =
           Inr (TrimSpace (take (j - 3) (drop 3 content)), TrimSpace (drop (j + 3) content))))"
  by (simp add: splitFrontmatter_by_separators)

text \<open>The three cases at a body alone, a body after one separator, and a document with
  a metadata block; in each, the separators are lines of exactly \<open>---\<close>.\<close>

theorem splitFrontmatter_cases_witness:
  "separators '' just a body\<newline>'' = [] \<and>
   markerLines '' just a body\<newline>'' = [] \<and>
   splitFrontmatter '' just a body\<newline>'' = Inr ('''', ''just a body'') \<and>
   separators ''---\<newline>body\<newline>'' = [0] \<and>
   markerLines ''---\<newline>body\<newline>'' = [0] \<and>
   splitFrontmatter ''---\<newline>body\<newline>'' = Inr ('''', ''body'') \<and>
   separators ''---\<newline>title: Hello\<newline>---\<newline>Body *text*'' = [0, 17] \<and>
   markerLines ''---\<newline>title: Hello\<newline>---\<newline>Body *text*'' = [0, 17] \<and>
   splitFrontmatter ''---\<newline>title: Hello\<newline>---\<newline>Body *text*'' =
     Inr (''title: Hello'', ''Body *text*'')"
proof -
  have s1: "separators '' just a body\<newline>'' = []" by code_simp
  have s2: "separators ''---\<newline>body\<newline>'' = [0]" by code_simp
  have s3: "separators ''---\<newline>title: Hello\<newline>---\<newline>Body *text*'' = [0, 17]" by code_simp
  have m1: "markerLines '' just a body\<newline>'' = []" by code_simp
  have m2: "markerLines ''---\<newline>body\<newline>'' = [0]" by code_simp
  have m3: "markerLines ''---\<newline>title: Hello\<newline>---\<newline>Body *text*'' = [0, 17]" by code_simp
  have t1: "TrimSpace '' just a body\<newline>'' = ''just a body''" by code_simp
  have t2: "TrimSpace (drop 3 ''---\<newline>body\<newline>'') = ''body''" by code_simp
  have t3: "TrimSpace (take (17 - 3) (drop 3 ''---\<newline>title: Hello\<newline>---\<newline>Body *text*'')) = ''title: Hello''" by code_simp
  have t4: "TrimSpace (drop (17 + 3) ''---\<newline>title: Hello\<newline>---\<newline>Body *text*'') = ''Body *text*''" by code_simp
  show ?thesis
    using splitFrontmatter_cases [of "'' just a body\<newline>''"]
      splitFrontmatter_cases [of "''---\<newline>body\<newline>''"]
      splitFrontmatter_cases [of "''---\<newline>title: Hello\<newline>---\<newline>Body *text*''" 17]
    by (simp only: s1 s2 s3 m1 m2 m3 t1 t2 t3 t4 simp_thms)
qed

text \<open>
  Claim C3 as stated counts as separators the lines that consist of exactly \<open>---\<close>. The
  text \<open>---\<close>, \<open>foo\<close>, \<open>---bar\<close>, \<open>baz\<close> (one per line) has exactly one such line, at its
  start, so the claim gives an empty metadata block and everything after that line as
  the body; the code also cuts at \<open>---bar\<close> and returns the metadata block \<open>foo\<close> and
  the body \<open>bar\<close>, \<open>baz\<close>. The text \<open>---y\<close>, \<open>rest\<close> has no such line, so the claim gives
  the whole text as the body; the code returns \<open>y\<close>, \<open>rest\<close>.
\<close>

theorem separator_line_cases_counterexample:
  "markerLines ''---\<newline>foo\<newline>---bar\<newline>baz'' = [0] \<and>
   TrimSpace (drop 3 ''---\<newline>foo\<newline>---bar\<newline>baz'') = ''foo\<newline>---bar\<newline>baz'' \<and>
   splitFrontmatter ''---\<newline>foo\<newline>---bar\<newline>baz'' = Inr (''foo'', ''bar\<newline>baz'') \<and>
   splitFrontmatter ''---\<newline>foo\<newline>---bar\<newline>baz'' \<noteq>
     Inr ('''', TrimSpace (drop 3 ''---\<newline>foo\<newline>---bar\<newline>baz'')) \<and>
   markerLines ''---y\<newline>rest'' = [] \<and>
   TrimSpace ''---y\<newline>rest'' = ''---y\<newline>rest'' \<and>
   splitFrontmatter ''---y\<newline>rest'' = Inr ('''', ''y\<newline>rest'') \<and>
   splitFrontmatter ''---y\<newline>rest'' \<noteq> Inr ('''', TrimSpace ''---y\<newline>rest'')"
  by code_simp

section \<open>Properties of the build\<close>

text \<open>
  Claim C8. For every title and every page-specific map, the locals hold the five
  baseline keys and the keys of the page, and nothing else. Every page-specific entry is
  in the result with its own value, whether or not its key is a baseline key; a baseline
  key the page does not set keeps its baseline value (the empty body class, the
  analytics identifier of the configuration, the release, the title, the viewport
  width \<open>device-width\<close>).
\<close>

theorem getLocals_baseline_overlay:
  "dom (getLocals env conf title locals) =
     {''BodyClass'', ''GoogleAnalyticsID'', ''Release'', ''Title'', ''ViewportWidth''} \<union> dom locals \<and>
   (\<forall>k v. locals k = Some v \<longrightarrow> getLocals env conf title locals k = Some v) \<and>
   (locals ''BodyClass'' = None \<longrightarrow>
      getLocals env conf title locals ''BodyClass'' = Some (VString '''')) \<and>
   (locals ''GoogleAnalyticsID'' = None \<longrightarrow>
      getLocals env conf title locals ''GoogleAnalyticsID'' =
        Some (VString (GoogleAnalyticsID conf))) \<and>
   (locals ''Release'' = None \<longrightarrow>
      getLocals env conf title locals ''Release'' = Some (VString (Release env))) \<and>
   (locals ''Title'' = None \<longrightarrow>
      getLocals env conf title locals ''Title'' = Some (VString title)) \<and>
   (locals ''ViewportWidth'' = None \<longrightarrow>
      getLocals env conf title locals ''ViewportWidth'' = Some (VString ''device-width''))"
proof -
  have d: "dom (getLocals env conf title locals) =
     {''BodyClass'', ''GoogleAnalyticsID'', ''Release'', ''Title'', ''ViewportWidth''} \<union> dom locals"
    unfolding getLocals_def dom_map_add by auto
  have o: "\<forall>k v. locals k = Some v \<longrightarrow> getLocals env conf title locals k = Some v"
    by (simp add: getLocals_def map_add_Some_iff)
  have b: "\<And>k. locals k = None \<Longrightarrow> getLocals env conf title locals k =
      [''BodyClass'' \<mapsto> VString '''',
       ''GoogleAnalyticsID'' \<mapsto> VString (GoogleAnalyticsID conf),
       ''Release'' \<mapsto> VString (Release env),
       ''Title'' \<mapsto> VString title,
       ''ViewportWidth'' \<mapsto> VString ''device-width''] k"
    by (simp add: getLocals_def map_add_def)
  show ?thesis
    using d o by (simp add: b)
qed

text \<open>A page that overrides the title and adds a key of its own.\<close>

theorem getLocals_baseline_overlay_witness:
  "[''Title'' \<mapsto> VString ''Override'', ''Runs'' \<mapsto> VRuns NilSlice] ''Title'' = Some (VString ''Override'') \<and>
   getLocals exampleEnv exampleConf ''Runs''
     [''Title'' \<mapsto> VString ''Override'', ''Runs'' \<mapsto> VRuns NilSlice] ''Title'' = Some (VString ''Override'') \<and>
   getLocals exampleEnv exampleConf ''Runs''
     [''Title'' \<mapsto> VString ''Override'', ''Runs'' \<mapsto> VRuns NilSlice] ''Runs'' = Some (VRuns NilSlice) \<and>
   [''Title'' \<mapsto> VString ''Override'', ''Runs'' \<mapsto> VRuns NilSlice] ''Release'' = None \<and>
   getLocals exampleEnv exampleConf ''Runs''
     [''Title'' \<mapsto> VString ''Override'', ''Runs'' \<mapsto> VRuns NilSlice] ''Release'' = Some (VString ''1'') \<and>
   getLocals exampleEnv exampleConf ''Runs''
     [''Title'' \<mapsto> VString ''Override'', ''Runs'' \<mapsto> VRuns NilSlice] ''ViewportWidth'' =
       Some (VString ''device-width'')"
  using getLocals_baseline_overlay [of exampleEnv exampleConf "''Runs''"
      "[''Title'' \<mapsto> VString ''Override'', ''Runs'' \<mapsto> VRuns NilSlice]"]
  by (simp add: exampleEnv_def)

text \<open>
  Claim C4. Take an entry of the articles directory whose file is read, split and
  decoded into a record. If the title is empty, whatever the other fields, compiling
  the entry fails with the error \<open>No title for article:\<close> followed by the path of the
  file; if the title is not empty and there is no publication date, it fails with the
  error \<open>No publish date for article:\<close> and the path; otherwise validation passes and
  the result is that of rendering the article. In a build that reaches the entry, either
  failure ends the process with that error, in the world the entries before it left:
  nothing after it is compiled. The same holds for fragments, which are reached once
  the articles are compiled.
\<close>

theorem missing_required_field_is_fatal:
  "(srcFile env (ArticlesDir env @ name) = Inr raw \<and>
    splitFrontmatter raw = Inr (block, body) \<and>
    yamlArticle env block = Inr article \<longrightarrow>
      (Article.Title article = '''' \<longrightarrow>
         compileArticle env conf name w =
           (Some (Errorf (''No title for article: '' @ ArticlesDir env @ name)), w)) \<and>
      (Article.Title article \<noteq> '''' \<and> Article.PublishedAt article = None \<longrightarrow>
         compileArticle env conf name w =
           (Some (Errorf (''No publish date for article: '' @ ArticlesDir env @ name)), w)) \<and>
      (Article.Title article \<noteq> '''' \<and> Article.PublishedAt article \<noteq> None \<longrightarrow>
         compileArticle env conf name w =
           renderView env (LayoutsDir env @ ''main'') (ViewsDir env @ ''/articles/show'')
             (TargetArticlesDir env @ Replace name ''.md'' '''')
             (getLocals env conf (Article.Title article)
                [''Article'' \<mapsto>
                   VArticle (article\<lparr>Article.Content := Markdown env body, TOC := ''''\<rparr>)])
             w) \<and>
      ((Article.Title article = '''' \<or> Article.PublishedAt article = None) \<and>
       envDecode env = Inr conf \<and> CreateTargetDirs env w0 = (None, w1) \<and>
       ReadDir env (ArticlesDir env) = Inr (pre @ name # post) \<and>
       compileArticlesLoop env conf pre w1 = (None, w) \<longrightarrow>
         main env w0 =
           (ExitFatal (Errorf ((if Article.Title article = '''' then ''No title for article: ''
                                else ''No publish date for article: '') @ ArticlesDir env @ name)),
            w))) \<and>
   (srcFile env (FragmentsDir env @ name) = Inr raw \<and>
    splitFrontmatter raw = Inr (block, body) \<and>
    yamlFragment env block = Inr fragment \<longrightarrow>
      (Fragment.Title fragment = '''' \<longrightarrow>
         compileFragment env conf name w =
           (Some (Errorf (''No title for fragment: '' @ FragmentsDir env @ name)), w)) \<and>
      (Fragment.Title fragment \<noteq> '''' \<and> Fragment.PublishedAt fragment = None \<longrightarrow>
         compileFragment env conf name w =
           (Some (Errorf (''No publish date for fragment: '' @ FragmentsDir env @ name)), w)) \<and>
      (Fragment.Title fragment \<noteq> '''' \<and> Fragment.PublishedAt fragment \<noteq> None \<longrightarrow>
         compileFragment env conf name w =
           renderView env (LayoutsDir env @ ''main'') (ViewsDir env @ ''/fragments/show'')
             (TargetFragmentsDir env @ Replace name ''.md'' '''')
             (getLocals env conf (Fragment.Title fragment)
                [''Fragment'' \<mapsto>
                   VFragment (fragment\<lparr>Fragment.Content := Markdown env body\<rparr>)])
             w) \<and>
      ((Fragment.Title fragment = '''' \<or> Fragment.PublishedAt fragment = None) \<and>
       envDecode env = Inr conf \<and> CreateTargetDirs env w0 = (None, w1) \<and>
       compileArticles env conf w1 = (None, w2) \<and>
       ReadDir env (FragmentsDir env) = Inr (pre @ name # post) \<and>
       compileFragmentsLoop env conf pre w2 = (None, w) \<longrightarrow>
         main env w0 =
           (ExitFatal (Errorf ((if Fragment.Title fragment = '''' then ''No title for fragment: ''
                                else ''No publish date for fragment: '') @ FragmentsDir env @ name)),
            w)))"
proof (intro conjI impI)
  assume h: "srcFile env (ArticlesDir env @ name) = Inr raw \<and>
    splitFrontmatter raw = Inr (block, body) \<and> yamlArticle env block = Inr article"
  then have d: "compileArticle env conf name w =
     (if Article.Title article = '''' then
        (Some (Errorf (''No title for article: '' @ ArticlesDir env @ name)), w)
      else if Article.PublishedAt article = None then
        (Some (Errorf (''No publish date for article: '' @ ArticlesDir env @ name)), w)
      else
        renderView env (LayoutsDir env @ ''main'') (ViewsDir env @ ''/articles/show'')
          (TargetArticlesDir env @ Replace name ''.md'' '''')
          (getLocals env conf (Article.Title article)
             [''Article'' \<mapsto> VArticle (article\<lparr>Article.Content := Markdown env body, TOC := ''''\<rparr>)])
          w)"
    by (simp add: compileArticle_decoded)
  {
    assume "Article.Title article = ''''"
    then show "compileArticle env conf name w =
           (Some (Errorf (''No title for article: '' @ ArticlesDir env @ name)), w)"
      using d by simp
  }
  {
    assume "Article.Title article \<noteq> '''' \<and> Article.PublishedAt article = None"
    then show "compileArticle env conf name w =
           (Some (Errorf (''No publish date for article: '' @ ArticlesDir env @ name)), w)"
      using d by simp
  }
  {
    assume "Article.Title article \<noteq> '''' \<and> Article.PublishedAt article \<noteq> None"
    then show "compileArticle env conf name w =
           renderView env (LayoutsDir env @ ''main'') (ViewsDir env @ ''/articles/show'')
             (TargetArticlesDir env @ Replace name ''.md'' '''')
             (getLocals env conf (Article.Title article)
                [''Article'' \<mapsto>
                   VArticle (article\<lparr>Article.Content := Markdown env body, TOC := ''''\<rparr>)])
             w"
      using d by auto
  }
  {
    assume a: "(Article.Title article = '''' \<or> Article.PublishedAt article = None) \<and>
       envDecode env = Inr conf \<and> CreateTargetDirs env w0 = (None, w1) \<and>
       ReadDir env (ArticlesDir env) = Inr (pre @ name # post) \<and>
       compileArticlesLoop env conf pre w1 = (None, w)"
    then have "compileArticle env conf name w =
        (Some (Errorf ((if Article.Title article = '''' then ''No title for article: ''
                        else ''No publish date for article: '') @ ArticlesDir env @ name)), w)"
      using d by auto
    then show "main env w0 =
           (ExitFatal (Errorf ((if Article.Title article = '''' then ''No title for article: ''
                                else ''No publish date for article: '') @ ArticlesDir env @ name)),
            w)"
      using a main_article_failure [of env conf w0 w1 pre name post w] by blast
  }
next
  assume h: "srcFile env (FragmentsDir env @ name) = Inr raw \<and>
    splitFrontmatter raw = Inr (block, body) \<and> yamlFragment env block = Inr fragment"
  then have d: "compileFragment env conf name w =
     (if Fragment.Title fragment = '''' then
        (Some (Errorf (''No title for fragment: '' @ FragmentsDir env @ name)), w)
      else if Fragment.PublishedAt fragment = None then
        (Some (Errorf (''No publish date for fragment: '' @ FragmentsDir env @ name)), w)
      else
        renderView env (LayoutsDir env @ ''main'') (ViewsDir env @ ''/fragments/show'')
          (TargetFragmentsDir env @ Replace name ''.md'' '''')
          (getLocals env conf (Fragment.Title fragment)
             [''Fragment'' \<mapsto> VFragment (fragment\<lparr>Fragment.Content := Markdown env body\<rparr>)])
          w)"
    by (simp add: compileFragment_decoded)
  {
    assume "Fragment.Title fragment = ''''"
    then show "compileFragment env conf name w =
           (Some (Errorf (''No title for fragment: '' @ FragmentsDir env @ name)), w)"
      using d by simp
  }
  {
    assume "Fragment.Title fragment \<noteq> '''' \<and> Fragment.PublishedAt fragment = None"
    then show "compileFragment env conf name w =
           (Some (Errorf (''No publish date for fragment: '' @ FragmentsDir env @ name)), w)"
      using d by simp
  }
  {
    assume "Fragment.Title fragment \<noteq> '''' \<and> Fragment.PublishedAt fragment \<noteq> None"
    then show "compileFragment env conf name w =
           renderView env (LayoutsDir env @ ''main'') (ViewsDir env @ ''/fragments/show'')
             (TargetFragmentsDir env @ Replace name ''.md'' '''')
             (getLocals env conf (Fragment.Title fragment)
                [''Fragment'' \<mapsto>
                   VFragment (fragment\<lparr>Fragment.Content := Markdown env body\<rparr>)])
             w"
      using d by auto
  }
  {
    assume a: "(Fragment.Title fragment = '''' \<or> Fragment.PublishedAt fragment = None) \<and>
       envDecode env = Inr conf \<and> CreateTargetDirs env w0 = (None, w1) \<and>
       compileArticles env conf w1 = (None, w2) \<and>
       ReadDir env (FragmentsDir env) = Inr (pre @ name # post) \<and>
       compileFragmentsLoop env conf pre w2 = (None, w)"
    then have "compileFragment env conf name w =
        (Some (Errorf ((if Fragment.Title fragment = '''' then ''No title for fragment: ''
                        else ''No publish date for fragment: '') @ FragmentsDir env @ name)), w)"
      using d by auto
    then show "main env w0 =
           (ExitFatal (Errorf ((if Fragment.Title fragment = '''' then ''No title for fragment: ''
                                else ''No publish date for fragment: '') @ FragmentsDir env @ name)),
            w)"
      using a main_fragment_failure [of env conf w0 w1 w2 pre name post w] by blast
  }
qed

text \<open>
  An article without a title and a fragment without a publication date, each after a
  valid entry, and the two valid entries.
\<close>

theorem missing_required_field_is_fatal_witness:
  "compileArticle untitledEnv exampleConf ''untitled.md'' emptyWorld =
     (Some (Errorf ''No title for article: content/articles/untitled.md''), emptyWorld) \<and>
   main untitledEnv emptyWorld =
     (ExitFatal (Errorf ''No title for article: content/articles/untitled.md''),
      snd (compileArticle untitledEnv exampleConf ''hello.md'' emptyWorld)) \<and>
   compileFragment undatedEnv exampleConf ''undated.md'' emptyWorld =
     (Some (Errorf ''No publish date for fragment: content/fragments/undated.md''), emptyWorld) \<and>
   main undatedEnv emptyWorld =
     (ExitFatal (Errorf ''No publish date for fragment: content/fragments/undated.md''),
      snd (compileFragment undatedEnv exampleConf ''note.md''
             (snd (compileArticle undatedEnv exampleConf ''hello.md'' emptyWorld)))) \<and>
   compileArticle exampleEnv exampleConf ''hello.md'' emptyWorld =
     renderView exampleEnv ''layouts/main'' ''views/articles/show'' ''public/articles/hello''
       (getLocals exampleEnv exampleConf ''Hello''
          [''Article'' \<mapsto>
             VArticle \<lparr>Attributions = '''', Article.Content = ''<p>Body *text*</p>'',
                       HNLink = '''', Hook = '''', Article.Image = '''',
                       Article.PublishedAt = Some (Time 1577836800),
                       Article.Title = ''Hello'', TOC = ''''\<rparr>])
       emptyWorld \<and>
   compileFragment exampleEnv exampleConf ''note.md'' emptyWorld =
     renderView exampleEnv ''layouts/main'' ''views/fragments/show'' ''public/fragments/note''
       (getLocals exampleEnv exampleConf ''Note''
          [''Fragment'' \<mapsto>
             VFragment \<lparr>Fragment.Content = ''<p>Body</p>'', Fragment.Image = '''',
                        Fragment.PublishedAt = Some (Time 1577836800),
                        Fragment.Title = ''Note''\<rparr>])
       emptyWorld"
proof -
  let ?untitled = "\<lparr>Attributions = '''', Article.Content = '''', HNLink = '''', Hook = ''x'',
          Article.Image = '''', Article.PublishedAt = None, Article.Title = '''', TOC = ''''\<rparr>"
  let ?hello = "\<lparr>Attributions = '''', Article.Content = '''', HNLink = '''', Hook = '''',
          Article.Image = '''', Article.PublishedAt = Some (Time 1577836800),
          Article.Title = ''Hello'', TOC = ''''\<rparr>"
  let ?undated = "\<lparr>Fragment.Content = '''', Fragment.Image = '''',
          Fragment.PublishedAt = None, Fragment.Title = ''Undated''\<rparr>"
  let ?note = "\<lparr>Fragment.Content = '''', Fragment.Image = '''',
          Fragment.PublishedAt = Some (Time 1577836800), Fragment.Title = ''Note''\<rparr>"
  let ?w1 = "snd (compileArticle untitledEnv exampleConf ''hello.md'' emptyWorld)"
  let ?w2 = "snd (compileArticle undatedEnv exampleConf ''hello.md'' emptyWorld)"
  let ?w3 = "snd (compileFragment undatedEnv exampleConf ''note.md'' ?w2)"
  have dirs: "ArticlesDir untitledEnv = ''content/articles/''"
    "FragmentsDir undatedEnv = ''content/fragments/''"
    "ArticlesDir exampleEnv = ''content/articles/''"
    "FragmentsDir exampleEnv = ''content/fragments/''"
    by (simp_all add: untitledEnv_def undatedEnv_def exampleEnv_def)
  have loop1: "compileArticlesLoop untitledEnv exampleConf [''hello.md''] emptyWorld = (None, ?w1)"
    using hello_compiles(2) [of emptyWorld]
    by (cases "compileArticle untitledEnv exampleConf ''hello.md'' emptyWorld") simp
  have loop2: "compileFragmentsLoop undatedEnv exampleConf [''note.md''] ?w2 = (None, ?w3)"
    using note_compiles(1) [of ?w2]
    by (cases "compileFragment undatedEnv exampleConf ''note.md'' ?w2") simp
  have in_untitled: "srcFile untitledEnv (ArticlesDir untitledEnv @ ''untitled.md'') =
        Inr ''---\<newline>hook: x\<newline>---\<newline>Body'' \<and>
      splitFrontmatter ''---\<newline>hook: x\<newline>---\<newline>Body'' = Inr (''hook: x'', ''Body'') \<and>
      yamlArticle untitledEnv ''hook: x'' = Inr ?untitled"
    using untitled_src untitled_split untitled_yaml by simp
  have in_undated: "srcFile undatedEnv (FragmentsDir undatedEnv @ ''undated.md'') =
        Inr ''---\<newline>title: Undated\<newline>---\<newline>Body'' \<and>
      splitFrontmatter ''---\<newline>title: Undated\<newline>---\<newline>Body'' =
        Inr (''title: Undated'', ''Body'') \<and>
      yamlFragment undatedEnv ''title: Undated'' = Inr ?undated"
    by (simp add: undated_split undatedEnv_def exampleEnv_def)
  have in_hello: "srcFile exampleEnv (ArticlesDir exampleEnv @ ''hello.md'') =
        Inr ''---\<newline>title: Hello\<newline>---\<newline>Body *text*'' \<and>
      splitFrontmatter ''---\<newline>title: Hello\<newline>---\<newline>Body *text*'' =
        Inr (''title: Hello'', ''Body *text*'') \<and>
      yamlArticle exampleEnv ''title: Hello'' = Inr ?hello"
    by (simp add: hello_split exampleEnv_def)
  have in_note: "srcFile exampleEnv (FragmentsDir exampleEnv @ ''note.md'') =
        Inr ''---\<newline>title: Note\<newline>---\<newline>Body'' \<and>
      splitFrontmatter ''---\<newline>title: Note\<newline>---\<newline>Body'' =
        Inr (''title: Note'', ''Body'') \<and>
      yamlFragment exampleEnv ''title: Note'' = Inr ?note"
    by (simp add: note_split exampleEnv_def)
  have run1: "envDecode untitledEnv = Inr exampleConf \<and>
      CreateTargetDirs untitledEnv emptyWorld = (None, emptyWorld) \<and>
      ReadDir untitledEnv (ArticlesDir untitledEnv) = Inr ([''hello.md''] @ ''untitled.md'' # [])"
    by (simp add: untitledEnv_def exampleEnv_def)
  have run2: "envDecode undatedEnv = Inr exampleConf \<and>
      CreateTargetDirs undatedEnv emptyWorld = (None, emptyWorld) \<and>
      compileArticles undatedEnv exampleConf emptyWorld = (None, ?w2) \<and>
      ReadDir undatedEnv (FragmentsDir undatedEnv) =
        Inr ([''note.md''] @ ''undated.md'' # [''plain.md''])"
    by (simp add: undated_articles_compile) (simp add: undatedEnv_def exampleEnv_def)
  have c1: "compileArticle untitledEnv exampleConf ''untitled.md'' emptyWorld =
     (Some (Errorf (''No title for article: '' @ ArticlesDir untitledEnv @ ''untitled.md'')), emptyWorld)"
    using in_untitled
      missing_required_field_is_fatal
        [where env = untitledEnv and name = "''untitled.md''" and conf = exampleConf
           and raw = "''---\<newline>hook: x\<newline>---\<newline>Body''" and block = "''hook: x''"
           and body = "''Body''" and article = ?untitled and w = emptyWorld]
    by simp
  have c2: "main untitledEnv emptyWorld =
     (ExitFatal (Errorf (''No title for article: '' @ ArticlesDir untitledEnv @ ''untitled.md'')), ?w1)"
    using in_untitled run1 loop1
      missing_required_field_is_fatal
        [where env = untitledEnv and name = "''untitled.md''" and conf = exampleConf
           and raw = "''---\<newline>hook: x\<newline>---\<newline>Body''" and block = "''hook: x''"
           and body = "''Body''" and article = ?untitled and w = ?w1
           and ?w0.0 = emptyWorld and ?w1.0 = emptyWorld and pre = "[''hello.md'']" and post = "[]"]
    by simp
  have c3: "compileFragment undatedEnv exampleConf ''undated.md'' emptyWorld =
     (Some (Errorf (''No publish date for fragment: '' @ FragmentsDir undatedEnv @ ''undated.md'')),
      emptyWorld)"
    using in_undated
      missing_required_field_is_fatal
        [where env = undatedEnv and name = "''undated.md''" and conf = exampleConf
           and raw = "''---\<newline>title: Undated\<newline>---\<newline>Body''"
           and block = "''title: Undated''"
           and body = "''Body''" and fragment = ?undated and w = emptyWorld]
    by simp
  have c4: "main undatedEnv emptyWorld =
     (ExitFatal (Errorf (''No publish date for fragment: '' @ FragmentsDir undatedEnv @ ''undated.md'')),
      ?w3)"
    using in_undated run2 loop2
      missing_required_field_is_fatal
        [where env = undatedEnv and name = "''undated.md''" and conf = exampleConf
           and raw = "''---\<newline>title: Undated\<newline>---\<newline>Body''"
           and block = "''title: Undated''"
           and body = "''Body''" and fragment = ?undated and w = ?w3
           and ?w0.0 = emptyWorld and ?w1.0 = emptyWorld and ?w2.0 = ?w2
           and pre = "[''note.md'']" and post = "[''plain.md'']"]
    by simp
  have c5: "compileArticle exampleEnv exampleConf ''hello.md'' emptyWorld =
     renderView exampleEnv (LayoutsDir exampleEnv @ ''main'') (ViewsDir exampleEnv @ ''/articles/show'')
       (TargetArticlesDir exampleEnv @ Replace ''hello.md'' ''.md'' '''')
       (getLocals exampleEnv exampleConf (Article.Title ?hello)
          [''Article'' \<mapsto>
             VArticle (?hello\<lparr>Article.Content := Markdown exampleEnv ''Body *text*'', TOC := ''''\<rparr>)])
       emptyWorld"
    using in_hello
      missing_required_field_is_fatal
        [where env = exampleEnv and name = "''hello.md''" and conf = exampleConf
           and raw = "''---\<newline>title: Hello\<newline>---\<newline>Body *text*''"
           and block = "''title: Hello''"
           and body = "''Body *text*''" and article = ?hello and w = emptyWorld]
    by simp
  have c6: "compileFragment exampleEnv exampleConf ''note.md'' emptyWorld =
     renderView exampleEnv (LayoutsDir exampleEnv @ ''main'') (ViewsDir exampleEnv @ ''/fragments/show'')
       (TargetFragmentsDir exampleEnv @ Replace ''note.md'' ''.md'' '''')
       (getLocals exampleEnv exampleConf (Fragment.Title ?note)
          [''Fragment'' \<mapsto>
             VFragment (?note\<lparr>Fragment.Content := Markdown exampleEnv ''Body''\<rparr>)])
       emptyWorld"
    using in_note
      missing_required_field_is_fatal
        [where env = exampleEnv and name = "''note.md''" and conf = exampleConf
           and raw = "''---\<newline>title: Note\<newline>---\<newline>Body''"
           and block = "''title: Note''"
           and body = "''Body''" and fragment = ?note and w = emptyWorld]
    by simp
  have paths: "LayoutsDir exampleEnv = ''layouts/''" "ViewsDir exampleEnv = ''views''"
    "TargetArticlesDir exampleEnv = ''public/articles/''"
    "TargetFragmentsDir exampleEnv = ''public/fragments/''"
    "Markdown exampleEnv = (\<lambda>source. ''<p>'' @ source @ ''</p>'')"
    by (simp_all add: exampleEnv_def)
  show ?thesis
    using c1 c2 c3 c4 c5 c6
    by (simp add: dirs paths Replace_hello Replace_note)
qed

text \<open>
  Claim C10. When the decoded metadata of an article or of a fragment has both an empty
  title and no publication date, the error is the one about the title, for the file
  being compiled: the title is checked first.
\<close>

theorem title_checked_before_publish_date:
  "(srcFile env (ArticlesDir env @ name) = Inr raw \<and>
    splitFrontmatter raw = Inr (block, body) \<and>
    yamlArticle env block = Inr article \<and>
    Article.Title article = '''' \<and> Article.PublishedAt article = None \<longrightarrow>
      compileArticle env conf name w =
        (Some (Errorf (''No title for article: '' @ ArticlesDir env @ name)), w)) \<and>
   (srcFile env (FragmentsDir env @ name) = Inr raw \<and>
    splitFrontmatter raw = Inr (block, body) \<and>
    yamlFragment env block = Inr fragment \<and>
    Fragment.Title fragment = '''' \<and> Fragment.PublishedAt fragment = None \<longrightarrow>
      compileFragment env conf name w =
        (Some (Errorf (''No title for fragment: '' @ FragmentsDir env @ name)), w))"
  by (simp add: compileArticle_decoded compileFragment_decoded)

text \<open>
  An article whose metadata block has neither title nor date, and a fragment without
  any metadata block.
\<close>

theorem title_checked_before_publish_date_witness:
  "srcFile untitledEnv (ArticlesDir untitledEnv @ ''untitled.md'') =
     Inr ''---\<newline>hook: x\<newline>---\<newline>Body'' \<and>
   splitFrontmatter ''---\<newline>hook: x\<newline>---\<newline>Body'' = Inr (''hook: x'', ''Body'') \<and>
   yamlArticle untitledEnv ''hook: x'' =
     Inr \<lparr>Attributions = '''', Article.Content = '''', HNLink = '''', Hook = ''x'',
          Article.Image = '''', Article.PublishedAt = None, Article.Title = '''', TOC = ''''\<rparr> \<and>
   compileArticle untitledEnv exampleConf ''untitled.md'' emptyWorld =
     (Some (Errorf ''No title for article: content/articles/untitled.md''), emptyWorld) \<and>
   srcFile undatedEnv (FragmentsDir undatedEnv @ ''plain.md'') = Inr ''Body without metadata'' \<and>
   splitFrontmatter ''Body without metadata'' = Inr ('''', ''Body without metadata'') \<and>
   yamlFragment undatedEnv '''' =
     Inr \<lparr>Fragment.Content = '''', Fragment.Image = '''', Fragment.PublishedAt = None,
          Fragment.Title = ''''\<rparr> \<and>
   compileFragment undatedEnv exampleConf ''plain.md'' emptyWorld =
     (Some (Errorf ''No title for fragment: content/fragments/plain.md''), emptyWorld)"
proof -
  have a: "ArticlesDir untitledEnv = ''content/articles/''"
    by (simp add: untitledEnv_def exampleEnv_def)
  have f: "FragmentsDir undatedEnv = ''content/fragments/''"
    by (simp add: undatedEnv_def exampleEnv_def)
  have "compileArticle untitledEnv exampleConf ''untitled.md'' emptyWorld =
     (Some (Errorf (''No title for article: '' @ ArticlesDir untitledEnv @ ''untitled.md'')), emptyWorld)"
    using title_checked_before_publish_date
      [where env = untitledEnv and name = "''untitled.md''"
         and raw = "''---\<newline>hook: x\<newline>---\<newline>Body''" and block = "''hook: x''"
         and body = "''Body''" and conf = exampleConf and w = emptyWorld
         and article = "\<lparr>Attributions = '''', Article.Content = '''', HNLink = '''', Hook = ''x'',
          Article.Image = '''', Article.PublishedAt = None, Article.Title = '''', TOC = ''''\<rparr>"]
      untitled_src untitled_split untitled_yaml
    by simp
  moreover have "compileFragment undatedEnv exampleConf ''plain.md'' emptyWorld =
     (Some (Errorf (''No title for fragment: '' @ FragmentsDir undatedEnv @ ''plain.md'')), emptyWorld)"
    using title_checked_before_publish_date
      [where env = undatedEnv and name = "''plain.md''"
         and raw = "''Body without metadata''" and block = "''''"
         and body = "''Body without metadata''" and conf = exampleConf and w = emptyWorld
         and fragment = "\<lparr>Fragment.Content = '''', Fragment.Image = '''',
            Fragment.PublishedAt = None, Fragment.Title = ''''\<rparr>"]
      plain_src plain_split plain_yaml
    by simp
  ultimately show ?thesis
    using untitled_src untitled_split untitled_yaml plain_src plain_split plain_yaml
    by (simp add: a f)
qed

text \<open>
  Claim C5. Once the configuration is decoded, \<open>main\<close> is the run of the six stages
  in their order: the target directories, the articles, the fragments, the runs page,
  the style sheet bundle, the image assets. Each stage starts in the world that the
  stage before it left, and when all six succeed the process ends with success in the
  world the last one left. When the stages before some stage have succeeded and that
  stage fails (it returns an error, or calls \<open>log.Fatal\<close> itself), the process ends
  with that error in the world that stage left: no later stage has run and nothing
  that was written is undone.
\<close>

theorem main_is_six_stages_in_order:
  "(envDecode env = Inr conf \<longrightarrow> main env w = runStages (stages env conf) w) \<and>
   (envDecode env = Inr conf \<and>
    CreateTargetDirs env w = (None, w1) \<and>
    compileArticles env conf w1 = (None, w2) \<and>
    compileFragments env conf w2 = (None, w3) \<and>
    compileRuns env conf w3 = (Return None, w4) \<and>
    compileStylesheets env w4 = (None, w5) \<and>
    linkImageAssets env w5 = (None, w6) \<longrightarrow>
      main env w = (ExitOK, w6)) \<and>
   (envDecode env = Inr conf \<and>
    stages env conf = pre @ s # post \<and>
    runStages pre w = (ExitOK, v1) \<and>
    (s v1 = (Return (Some e), v2) \<or> s v1 = (LogFatal e, v2)) \<longrightarrow>
      main env w = (ExitFatal e, v2))"
proof (intro conjI impI)
  assume "envDecode env = Inr conf"
  then show "main env w = runStages (stages env conf) w"
    by (rule main_runStages)
next
  assume "envDecode env = Inr conf \<and>
    CreateTargetDirs env w = (None, w1) \<and>
    compileArticles env conf w1 = (None, w2) \<and>
    compileFragments env conf w2 = (None, w3) \<and>
    compileRuns env conf w3 = (Return None, w4) \<and>
    compileStylesheets env w4 = (None, w5) \<and>
    linkImageAssets env w5 = (None, w6)"
  then show "main env w = (ExitOK, w6)"
    by (simp add: main_def)
next
  assume a: "envDecode env = Inr conf \<and>
    stages env conf = pre @ s # post \<and>
    runStages pre w = (ExitOK, v1) \<and>
    (s v1 = (Return (Some e), v2) \<or> s v1 = (LogFatal e, v2))"
  then have "runStages (s # post) v1 = (ExitFatal e, v2)"
    by auto
  then have "runStages (pre @ s # post) w = (ExitFatal e, v2)"
    using a by (simp add: runStages_append)
  then show "main env w = (ExitFatal e, v2)"
    using a main_runStages [of env conf w] by simp
qed

text \<open>
  The example site builds to the end. With an article without a title added, the build
  ends in the second stage: the page of the article compiled before it is there, the
  bundle of the fifth stage is not.
\<close>

theorem main_is_six_stages_in_order_witness:
  "envDecode exampleEnv = Inr exampleConf \<and>
   main exampleEnv emptyWorld = runStages (stages exampleEnv exampleConf) emptyWorld \<and>
   fst (main exampleEnv emptyWorld) = ExitOK \<and>
   symlinks (snd (main exampleEnv emptyWorld)) ''/site/public/assets/logo.png'' =
     Some ''/site/content/images/logo.png'' \<and>
   envDecode untitledEnv = Inr exampleConf \<and>
   main untitledEnv emptyWorld =
     (ExitFatal (Errorf ''No title for article: content/articles/untitled.md''),
      snd (compileArticles untitledEnv exampleConf emptyWorld)) \<and>
   files (snd (main untitledEnv emptyWorld)) ''public/articles/hello'' = Some ''<html></html>'' \<and>
   files (snd (main untitledEnv emptyWorld)) ''public/assets/1/app.css'' = None"
proof -
  let ?w2 = "snd (compileArticles exampleEnv exampleConf emptyWorld)"
  let ?w3 = "snd (compileFragments exampleEnv exampleConf ?w2)"
  let ?w4 = "snd (compileRuns exampleEnv exampleConf ?w3)"
  let ?w5 = "snd (compileStylesheets exampleEnv ?w4)"
  let ?w6 = "snd (linkImageAssets exampleEnv ?w5)"
  have d1: "envDecode exampleEnv = Inr exampleConf"
    by (simp add: exampleEnv_def)
  have d2: "envDecode untitledEnv = Inr exampleConf"
    by (simp add: untitledEnv_def exampleEnv_def)
  have chain: "CreateTargetDirs exampleEnv emptyWorld = (None, emptyWorld) \<and>
      compileArticles exampleEnv exampleConf emptyWorld = (None, ?w2) \<and>
      compileFragments exampleEnv exampleConf ?w2 = (None, ?w3) \<and>
      compileRuns exampleEnv exampleConf ?w3 = (Return None, ?w4) \<and>
      compileStylesheets exampleEnv ?w4 = (None, ?w5) \<and>
      linkImageAssets exampleEnv ?w5 = (None, ?w6)"
  proof (intro conjI)
    show "CreateTargetDirs exampleEnv emptyWorld = (None, emptyWorld)"
      by (simp add: exampleEnv_def)
    show "compileArticles exampleEnv exampleConf emptyWorld = (None, ?w2)"
      by (simp add: example_articles)
    show "compileFragments exampleEnv exampleConf ?w2 = (None, ?w3)"
      by (simp add: example_fragments)
    show "compileRuns exampleEnv exampleConf ?w3 = (Return None, ?w4)"
      using example_runs(1) [of ?w3] by (simp add: prod_eq_iff)
    show "compileStylesheets exampleEnv ?w4 = (None, ?w5)"
      using example_stylesheets [of ?w4] by (simp add: prod_eq_iff)
    show "linkImageAssets exampleEnv ?w5 = (None, ?w6)"
      using example_links(1) [of ?w5] by (simp add: prod_eq_iff)
  qed
  have ok: "main exampleEnv emptyWorld = (ExitOK, ?w6)"
    using d1 chain
      main_is_six_stages_in_order
        [where env = exampleEnv and conf = exampleConf and w = emptyWorld and ?w1.0 = emptyWorld
           and ?w2.0 = ?w2 and ?w3.0 = ?w3 and ?w4.0 = ?w4 and ?w5.0 = ?w5 and ?w6.0 = ?w6]
    by blast
  have eq: "main exampleEnv emptyWorld = runStages (stages exampleEnv exampleConf) emptyWorld"
    using d1 main_is_six_stages_in_order [where env = exampleEnv and conf = exampleConf
        and w = emptyWorld]
    by blast
  have st: "stages untitledEnv exampleConf =
      [returning (CreateTargetDirs untitledEnv)] @
      returning (compileArticles untitledEnv exampleConf) #
      [returning (compileFragments untitledEnv exampleConf), compileRuns untitledEnv exampleConf,
       returning (compileStylesheets untitledEnv), returning (linkImageAssets untitledEnv)]"
    by (simp add: stages_def)
  have pre: "runStages [returning (CreateTargetDirs untitledEnv)] emptyWorld = (ExitOK, emptyWorld)"
    by (simp add: returning_def untitledEnv_def exampleEnv_def)
  have fail: "returning (compileArticles untitledEnv exampleConf) emptyWorld =
      (Return (Some (Errorf ''No title for article: content/articles/untitled.md'')),
       snd (compileArticles untitledEnv exampleConf emptyWorld))"
    by (simp add: returning_def untitled_articles)
  have bad: "main untitledEnv emptyWorld =
     (ExitFatal (Errorf ''No title for article: content/articles/untitled.md''),
      snd (compileArticles untitledEnv exampleConf emptyWorld))"
    using d2 st pre fail
      main_is_six_stages_in_order
        [where env = untitledEnv and conf = exampleConf and w = emptyWorld
           and pre = "[returning (CreateTargetDirs untitledEnv)]"
           and s = "returning (compileArticles untitledEnv exampleConf)"
           and post = "[returning (compileFragments untitledEnv exampleConf),
                        compileRuns untitledEnv exampleConf,
                        returning (compileStylesheets untitledEnv),
                        returning (linkImageAssets untitledEnv)]"
           and ?v1.0 = emptyWorld
           and ?v2.0 = "snd (compileArticles untitledEnv exampleConf emptyWorld)"
           and e = "Errorf ''No title for article: content/articles/untitled.md''"]
    by blast
  have fin: "fst (main exampleEnv emptyWorld) = ExitOK \<and>
      symlinks (snd (main exampleEnv emptyWorld)) ''/site/public/assets/logo.png'' =
        Some ''/site/content/images/logo.png'' \<and>
      files (snd (main untitledEnv emptyWorld)) ''public/articles/hello'' = Some ''<html></html>'' \<and>
      files (snd (main untitledEnv emptyWorld)) ''public/assets/1/app.css'' = None"
    by (simp add: ok bad example_links(2) untitled_articles hello_written)
  show ?thesis
    using d1 d2 eq bad fin by blast
qed

text \<open>
  Claim C7. The list of style sheets is the fixed list of thirteen names. When the
  bundle can be created and every style sheet of the list can be read and, where its
  name ends in \<open>.sass\<close>, compiled, \<open>compileStylesheets\<close> succeeds and the bundle is
  one file holding the sections of the style sheets in the order of the list. The
  section of a style sheet is the banner \<open>/* name */\<close> with the name of the file, an
  empty line, the content and an empty line; the content is the output of the
  preprocessor for a name ending in \<open>.sass\<close> and the file as it is otherwise.
\<close>

theorem stylesheet_bundle_is_ordered_sections:
  "stylesheets =
     [''_reset.sass'', ''main.sass'', ''about.sass'', ''fragments.sass'', ''index.sass'',
      ''photos.sass'', ''quotes.sass'', ''reading.sass'', ''runs.sass'', ''signature.sass'',
      ''solarized-light.css'', ''tenets.sass'', ''twitter.sass''] \<and>
   (createErr env (TargetVersionedAssetsDir env @ ''app.css'') = None \<and>
    (\<forall>stylesheet \<in> set stylesheets. \<exists>css. styleContent env stylesheet = Inr css) \<longrightarrow>
      compileStylesheets env w =
        (None, w\<lparr>files := (files w)(TargetVersionedAssetsDir env @ ''app.css'' \<mapsto>
                   concat (map (bundleSection env) stylesheets))\<rparr>)) \<and>
   (srcFile env (StylesheetsDir env @ stylesheet) = Inr inFile \<and>
    HasSuffix stylesheet ''.sass'' \<and> gcssCompile env inFile = Inr css \<longrightarrow>
      bundleSection env stylesheet =
        ''/* '' @ stylesheet @ '' */\<newline>\<newline>'' @ css @ ''\<newline>\<newline>'') \<and>
   (srcFile env (StylesheetsDir env @ stylesheet) = Inr inFile \<and>
    \<not> HasSuffix stylesheet ''.sass'' \<and> copyFault env (StylesheetsDir env @ stylesheet) = None \<longrightarrow>
      bundleSection env stylesheet =
        ''/* '' @ stylesheet @ '' */\<newline>\<newline>'' @ inFile @ ''\<newline>\<newline>'')"
  by (simp add: compileStylesheets_ok) (simp add: stylesheets_def bundleSection_def styleContent_def)

text \<open>
  The bundle of the example site, where the preprocessor wraps its input in \<open>a{ }\<close>:
  twelve compiled sections and one verbatim, in the order of the list.
\<close>

theorem stylesheet_bundle_is_ordered_sections_witness:
  "createErr exampleEnv (TargetVersionedAssetsDir exampleEnv @ ''app.css'') = None \<and>
   map (styleContent exampleEnv) stylesheets =
     map (\<lambda>stylesheet. if stylesheet = ''solarized-light.css'' then Inr ''a: b''
                        else Inr ''a{a: b}'') stylesheets \<and>
   fst (compileStylesheets exampleEnv emptyWorld) = None \<and>
   files (snd (compileStylesheets exampleEnv emptyWorld)) ''public/assets/1/app.css'' =
     Some (concat (map (\<lambda>stylesheet.
            ''/* '' @ stylesheet @ '' */\<newline>\<newline>'' @
            (if stylesheet = ''solarized-light.css'' then ''a: b'' else ''a{a: b}'') @
            ''\<newline>\<newline>'') stylesheets)) \<and>
   srcFile exampleEnv (StylesheetsDir exampleEnv @ ''main.sass'') = Inr ''a: b'' \<and>
   HasSuffix ''main.sass'' ''.sass'' \<and>
   gcssCompile exampleEnv ''a: b'' = Inr ''a{a: b}'' \<and>
   bundleSection exampleEnv ''main.sass'' = ''/* main.sass */\<newline>\<newline>a{a: b}\<newline>\<newline>'' \<and>
   srcFile exampleEnv (StylesheetsDir exampleEnv @ ''solarized-light.css'') = Inr ''a: b'' \<and>
   \<not> HasSuffix ''solarized-light.css'' ''.sass'' \<and>
   copyFault exampleEnv (StylesheetsDir exampleEnv @ ''solarized-light.css'') = None \<and>
   bundleSection exampleEnv ''solarized-light.css'' =
     ''/* solarized-light.css */\<newline>\<newline>a: b\<newline>\<newline>''"
proof -
  have c: "createErr exampleEnv (TargetVersionedAssetsDir exampleEnv @ ''app.css'') = None"
    by (simp add: exampleEnv_def)
  have out: "TargetVersionedAssetsDir exampleEnv @ ''app.css'' = ''public/assets/1/app.css''"
    by (simp add: exampleEnv_def)
  have sass: "srcFile exampleEnv (StylesheetsDir exampleEnv @ ''main.sass'') = Inr ''a: b'' \<and>
      HasSuffix ''main.sass'' ''.sass'' \<and> gcssCompile exampleEnv ''a: b'' = Inr ''a{a: b}''"
    by (simp add: exampleEnv_def HasSuffix_def)
  have css: "srcFile exampleEnv (StylesheetsDir exampleEnv @ ''solarized-light.css'') = Inr ''a: b'' \<and>
      \<not> HasSuffix ''solarized-light.css'' ''.sass'' \<and>
      copyFault exampleEnv (StylesheetsDir exampleEnv @ ''solarized-light.css'') = None"
    by (simp add: exampleEnv_def HasSuffix_def)
  have run: "compileStylesheets exampleEnv emptyWorld =
      (None, emptyWorld\<lparr>files := (files emptyWorld)(TargetVersionedAssetsDir exampleEnv @ ''app.css'' \<mapsto>
                   concat (map (bundleSection exampleEnv) stylesheets))\<rparr>)"
    using stylesheet_bundle_is_ordered_sections [where env = exampleEnv and w = emptyWorld]
      c example_styles_ok by simp
  have s1: "bundleSection exampleEnv ''main.sass'' =
      ''/* '' @ ''main.sass'' @ '' */\<newline>\<newline>'' @ ''a{a: b}'' @ ''\<newline>\<newline>''"
    using stylesheet_bundle_is_ordered_sections
      [where env = exampleEnv and stylesheet = "''main.sass''" and inFile = "''a: b''"
         and css = "''a{a: b}''"] sass
    by blast
  have s2: "bundleSection exampleEnv ''solarized-light.css'' =
      ''/* '' @ ''solarized-light.css'' @ '' */\<newline>\<newline>'' @ ''a: b'' @ ''\<newline>\<newline>''"
    using stylesheet_bundle_is_ordered_sections
      [where env = exampleEnv and stylesheet = "''solarized-light.css''" and inFile = "''a: b''"] css
    by blast
  show ?thesis
    using c sass css s1 s2
    by (simp add: run out example_styleContent example_bundleSection)
qed

text \<open>
  Claim C6, as the code has it. When the connection string of the configuration is
  empty, \<open>compileRuns\<close> is the rendering of the runs page and nothing else: it returns
  what \<open>renderView\<close> returns and makes no call to the database. When the template loads
  and the page can be created, the template is executed once, on locals that hold the
  \<open>nil\<close> slice of runs (of length 0) and four empty slices that are not \<open>nil\<close> for the
  daily and the yearly series.
\<close>

theorem compileRuns_without_database:
  "BlackSwanDatabaseURL conf = '''' \<longrightarrow>
     compileRuns env conf w =
       (case renderView env (LayoutsDir env @ ''main'') (ViewsDir env @ ''/runs/index'')
               (TargetDir env @ ''runs'')
               (getLocals env conf ''Runs''
                  [''Runs'' \<mapsto> VRuns NilSlice,
                   ''LastYearXDays'' \<mapsto> VTimes (Slice []),
                   ''LastYearYDistances'' \<mapsto> VFloats (Slice []),
                   ''ByYearXYears'' \<mapsto> VStrings (Slice []),
                   ''ByYearYDistances'' \<mapsto> VFloats (Slice [])]) w of
          (err, w1) \<Rightarrow> (Return err, w1)) \<and>
     dbLog (snd (compileRuns env conf w)) = dbLog w \<and>
     (aceLoad env (LayoutsDir env @ ''main'') (ViewsDir env @ ''/runs/index'') = Inr template \<and>
      createErr env (TargetDir env @ ''runs'') = None \<longrightarrow>
        (\<exists>locals.
           executed (snd (compileRuns env conf w)) =
             executed w @ [(TargetDir env @ ''runs'', locals)] \<and>
           fst (compileRuns env conf w) = Return (snd (template locals)) \<and>
           locals ''Runs'' = Some (VRuns NilSlice) \<and>
           len (NilSlice :: Run slice) = 0 \<and>
           locals ''LastYearXDays'' = Some (VTimes (Slice [])) \<and>
           locals ''LastYearYDistances'' = Some (VFloats (Slice [])) \<and>
           locals ''ByYearXYears'' = Some (VStrings (Slice [])) \<and>
           locals ''ByYearYDistances'' = Some (VFloats (Slice []))))"
proof (intro impI conjI)
  let ?locals = "getLocals env conf ''Runs''
                  [''Runs'' \<mapsto> VRuns NilSlice,
                   ''LastYearXDays'' \<mapsto> VTimes (Slice []),
                   ''LastYearYDistances'' \<mapsto> VFloats (Slice []),
                   ''ByYearXYears'' \<mapsto> VStrings (Slice []),
                   ''ByYearYDistances'' \<mapsto> VFloats (Slice [])]"
  let ?render = "renderView env (LayoutsDir env @ ''main'') (ViewsDir env @ ''/runs/index'')
               (TargetDir env @ ''runs'') ?locals w"
  assume url: "BlackSwanDatabaseURL conf = ''''"
  then show eq: "compileRuns env conf w = (case ?render of (err, w1) \<Rightarrow> (Return err, w1))"
    by (simp add: compileRuns_def renderRuns_def)
  have parts: "fst (compileRuns env conf w) = Return (fst ?render)"
      "snd (compileRuns env conf w) = snd ?render"
    unfolding eq by (simp_all split: prod.splits)
  show "dbLog (snd (compileRuns env conf w)) = dbLog w"
    by (simp add: parts renderView_dbLog)
  assume "aceLoad env (LayoutsDir env @ ''main'') (ViewsDir env @ ''/runs/index'') = Inr template \<and>
      createErr env (TargetDir env @ ''runs'') = None"
  then have "executed (snd (compileRuns env conf w)) =
             executed w @ [(TargetDir env @ ''runs'', ?locals)] \<and>
           fst (compileRuns env conf w) = Return (snd (template ?locals))"
    by (simp add: parts renderView_loaded)
  moreover have "?locals ''Runs'' = Some (VRuns NilSlice) \<and>
           len (NilSlice :: Run slice) = 0 \<and>
           ?locals ''LastYearXDays'' = Some (VTimes (Slice [])) \<and>
           ?locals ''LastYearYDistances'' = Some (VFloats (Slice [])) \<and>
           ?locals ''ByYearXYears'' = Some (VStrings (Slice [])) \<and>
           ?locals ''ByYearYDistances'' = Some (VFloats (Slice []))"
    by (simp add: getLocals_def)
  ultimately show "\<exists>locals.
           executed (snd (compileRuns env conf w)) =
             executed w @ [(TargetDir env @ ''runs'', locals)] \<and>
           fst (compileRuns env conf w) = Return (snd (template locals)) \<and>
           locals ''Runs'' = Some (VRuns NilSlice) \<and>
           len (NilSlice :: Run slice) = 0 \<and>
           locals ''LastYearXDays'' = Some (VTimes (Slice [])) \<and>
           locals ''LastYearYDistances'' = Some (VFloats (Slice [])) \<and>
           locals ''ByYearXYears'' = Some (VStrings (Slice [])) \<and>
           locals ''ByYearYDistances'' = Some (VFloats (Slice []))"
    by blast
qed

text \<open>The example site has no connection string; its runs page renders.\<close>

theorem compileRuns_without_database_witness:
  "BlackSwanDatabaseURL exampleConf = '''' \<and>
   fst (compileRuns exampleEnv exampleConf emptyWorld) = Return None \<and>
   dbLog (snd (compileRuns exampleEnv exampleConf emptyWorld)) = [] \<and>
   length (executed (snd (compileRuns exampleEnv exampleConf emptyWorld))) = 1"
proof -
  have url: "BlackSwanDatabaseURL exampleConf = ''''"
    by (simp add: exampleConf_def)
  have ld: "aceLoad exampleEnv (LayoutsDir exampleEnv @ ''main'') (ViewsDir exampleEnv @ ''/runs/index'') =
       Inr (\<lambda>locals. (''<html></html>'', None)) \<and>
     createErr exampleEnv (TargetDir exampleEnv @ ''runs'') = None"
    by (simp add: exampleEnv_def)
  show ?thesis
    using compileRuns_without_database
      [where env = exampleEnv and conf = exampleConf and w = emptyWorld
         and template = "\<lambda>locals. (''<html></html>'', None)"] url ld
    by (auto simp: emptyWorld_def)
qed

text \<open>
  Claim C6 as stated says that the activity list supplied to the view is not null. In
  the example the page is rendered without error and the view receives \<open>nil\<close> under
  \<open>Runs\<close>, which is not the empty slice: \<open>runs\<close> is declared without a value, and only
  the four series are initialised to empty slices.
\<close>

theorem activity_list_is_nil_counterexample:
  "BlackSwanDatabaseURL exampleConf = '''' \<and>
   fst (compileRuns exampleEnv exampleConf emptyWorld) = Return None \<and>
   map (\<lambda>(target, locals). (target, locals ''Runs''))
     (executed (snd (compileRuns exampleEnv exampleConf emptyWorld))) =
     [(''public/runs'', Some (VRuns NilSlice))] \<and>
   VRuns NilSlice \<noteq> VRuns (Slice [])"
  by (simp add: example_runs) (simp add: exampleConf_def emptyWorld_def)

end
